theory Spec2Isabelle
  imports Main "HOL-Library.Word"
begin

section \<open>Broker connection state and the transport\<close>

text \<open>
  Both Node processes (\<open>message-producer/app.js\<close> and \<open>backend/server.js\<close>) keep two
  module variables, \<open>rabbitConnection\<close> and \<open>rabbitChannel\<close>, both initially \<open>null\<close>.
  The state below holds them together with a log of every effect the code has on the
  outside: \<open>setTimeout\<close> calls, listener registrations, \<open>amqp.connect\<close> calls, queue
  declarations, calls of the channel's \<open>sendToQueue\<close>, and awaited delays.
  Console output is not modelled.
\<close>

type_synonym conn = nat
type_synonym chan = nat
type_synonym byte = "8 word"

datatype jserror = JsError string | TypeError string

datatype jsvalue =
    JUndefined
  | JNull
  | JBool bool
  | JNumber int
  | JString string
  | JArray "jsvalue list"
  | JObject "(string \<times> jsvalue) list"

datatype 'a completion = Returns 'a | Throws jserror

datatype signal = ErrorSignal | CloseSignal

datatype callback = Reconnect

record rabbit =
  rabbitConnection :: "conn option"
  rabbitChannel :: "chan option"
  timeouts :: "(callback \<times> nat) list"
  listeners :: "(conn \<times> signal) list"
  connects :: nat
  declared :: "(chan \<times> string \<times> bool) list"
  sendCalls :: "(chan \<times> string \<times> byte list \<times> bool) list"
  slept :: "nat list"

text \<open>
  The amqplib client and the JavaScript built-ins are outside the repository; their
  behaviour is a parameter. What they throw is an error object (it has a \<open>message\<close>). \<open>amqp_connect k\<close> is the outcome of the call of
  \<open>amqp.connect\<close> made after \<open>k\<close> earlier ones, \<open>channel_sendToQueue k\<close> that of the
  channel's \<open>sendToQueue\<close> after \<open>k\<close> earlier calls (\<open>Inr False\<close>: the write buffer is
  full). \<open>JSON_stringify\<close> may throw or give \<open>undefined\<close> (\<open>None\<close>); \<open>Buffer_from\<close>
  is the UTF-8 encoding of a string.
\<close>

record env =
  amqp_connect :: "nat \<Rightarrow> jserror + conn"
  createChannel :: "conn \<Rightarrow> jserror + chan"
  assertQueue :: "chan \<Rightarrow> string \<Rightarrow> jserror option"
  channel_sendToQueue :: "nat \<Rightarrow> chan \<Rightarrow> string \<Rightarrow> byte list \<Rightarrow> jserror + bool"
  JSON_stringify :: "jsvalue \<Rightarrow> jserror + string option"
  Buffer_from :: "string \<Rightarrow> byte list"

definition initial :: rabbit where
  "initial = \<lparr>rabbitConnection = None, rabbitChannel = None, timeouts = [], listeners = [],
     connects = 0, declared = [], sendCalls = [], slept = []\<rparr>"

definition clear_refs :: "rabbit \<Rightarrow> rabbit" where
  \<comment> \<open>\<open>rabbitChannel = null; rabbitConnection = null\<close>\<close>
  "clear_refs st = st\<lparr>rabbitChannel := None, rabbitConnection := None\<rparr>"

definition setTimeout :: "callback \<Rightarrow> nat \<Rightarrow> rabbit \<Rightarrow> rabbit" where
  "setTimeout cb ms st = st\<lparr>timeouts := timeouts st @ [(cb, ms)]\<rparr>"

section \<open>The producer (message-producer/app.js)\<close>

text \<open>
  The \<open>try\<close> block of \<open>connectToRabbitMQ\<close> (lines 25-48): the state reached when an
  exception is thrown is kept, as the assignments made before it are.
\<close>

definition after_connect :: "conn \<Rightarrow> rabbit \<Rightarrow> rabbit" where
  \<comment> \<open>\<open>rabbitConnection = await amqp.connect(RABBITMQ_URL)\<close> (producer line 27, backend line 69)\<close>
  "after_connect c st = st\<lparr>rabbitConnection := Some c\<rparr>"

definition after_channel :: "chan \<Rightarrow> rabbit \<Rightarrow> rabbit" where
  \<comment> \<open>\<open>rabbitChannel = await rabbitConnection.createChannel()\<close> (producer line 28, backend line 70)\<close>
  "after_channel ch st = st\<lparr>rabbitChannel := Some ch\<rparr>"

definition declare_queue :: \<comment> \<open>\<open>rabbitChannel.assertQueue(q, { durable: true })\<close> is called\<close>
  "chan \<Rightarrow> string \<Rightarrow> rabbit \<Rightarrow> rabbit" where
  "declare_queue ch q st = st\<lparr>declared := declared st @ [(ch, q, True)]\<rparr>"

definition install_listeners :: "rabbit \<Rightarrow> unit completion \<times> rabbit" where
  \<comment> \<open>\<open>rabbitConnection.on("error", ...)\<close>, then \<open>rabbitConnection.on("close", ...)\<close>\<close>
  "install_listeners st =
     (case rabbitConnection st of
        None \<Rightarrow> (Throws (TypeError ''Cannot read properties of null''), st)
      | Some c \<Rightarrow>
          (Returns (), st\<lparr>listeners := listeners st @ [(c, ErrorSignal), (c, CloseSignal)]\<rparr>))"

definition connect_try_producer :: "env \<Rightarrow> rabbit \<Rightarrow> unit completion \<times> rabbit" where
  "connect_try_producer env st =
     (let st0 = st\<lparr>connects := Suc (connects st)\<rparr> in
      case amqp_connect env (connects st) of
        Inl e \<Rightarrow> (Throws e, st0)
      | Inr c \<Rightarrow>
          let st1 = after_connect c st0 in
          (case createChannel env c of
             Inl e \<Rightarrow> (Throws e, st1)
           | Inr ch \<Rightarrow>
               let st2 = declare_queue ch ''game_events'' (after_channel ch st1) in
               (case assertQueue env ch ''game_events'' of
                  Some e \<Rightarrow> (Throws e, st2)
                | None \<Rightarrow> install_listeners st2)))"

definition connectToRabbitMQ_producer :: "env \<Rightarrow> rabbit \<Rightarrow> rabbit" where
  \<comment> \<open>the \<open>catch\<close> (lines 49-54) swallows every exception, so the call always resolves\<close>
  "connectToRabbitMQ_producer env st =
     (case connect_try_producer env st of
        (Returns u, st') \<Rightarrow> st'
      | (Throws e, st') \<Rightarrow> setTimeout Reconnect 5000 (clear_refs st'))"

definition on_signal_producer :: "rabbit \<Rightarrow> rabbit" where
  \<comment> \<open>the body of both listeners (lines 36-41 and 43-48)\<close>
  "on_signal_producer st = setTimeout Reconnect 5000 (clear_refs st)"

definition emit_producer :: "conn \<Rightarrow> signal \<Rightarrow> rabbit \<Rightarrow> rabbit" where
  \<comment> \<open>the connection \<open>c\<close> emits \<open>sg\<close>: every listener registered for it runs\<close>
  "emit_producer c sg st =
     fold (\<lambda>l s. on_signal_producer s) (filter (\<lambda>l. l = (c, sg)) (listeners st)) st"

text \<open>
  Lines 69-83 of the producer and 115-127 of the backend are the same statements: the
  call of \<open>rabbitChannel.sendToQueue(queue, Buffer.from(JSON.stringify(message)),
  {persistent: true})\<close> and the test of its result. Reading a property of \<open>null\<close> and
  \<open>Buffer.from(undefined)\<close> throw a TypeError.
\<close>

definition send_on_channel :: "env \<Rightarrow> string \<Rightarrow> jsvalue \<Rightarrow> rabbit \<Rightarrow> bool completion \<times> rabbit" where
  "send_on_channel env queue message st =
     (case rabbitChannel st of
        None \<Rightarrow> (Throws (TypeError ''Cannot read properties of null''), st)
      | Some ch \<Rightarrow>
          (case JSON_stringify env message of
             Inl e \<Rightarrow> (Throws e, st)
           | Inr None \<Rightarrow> (Throws (TypeError ''The first argument must be of type string''), st)
           | Inr (Some s) \<Rightarrow>
               let content = Buffer_from env s;
                   st' = st\<lparr>sendCalls := sendCalls st @ [(ch, queue, content, True)]\<rparr>
               in (case channel_sendToQueue env (length (sendCalls st)) ch queue content of
                     Inl e \<Rightarrow> (Throws e, st')
                   | Inr success \<Rightarrow>
                       if success then (Returns True, st') else (Returns False, st'))))"

definition send_try_producer :: "env \<Rightarrow> string \<Rightarrow> jsvalue \<Rightarrow> rabbit \<Rightarrow> bool completion \<times> rabbit" where
  \<comment> \<open>the \<open>try\<close> block of \<open>sendToQueue\<close> (lines 59-83)\<close>
  "send_try_producer env queue message st =
     (if rabbitChannel st = None then
        (let st1 = connectToRabbitMQ_producer env st in
         if rabbitChannel st1 = None then (Returns False, st1)
         else send_on_channel env queue message st1)
      else send_on_channel env queue message st)"

definition sendToQueue_producer :: "env \<Rightarrow> string \<Rightarrow> jsvalue \<Rightarrow> rabbit \<Rightarrow> bool completion \<times> rabbit" where
  \<comment> \<open>with the \<open>catch\<close> (lines 84-90)\<close>
  "sendToQueue_producer env queue message st =
     (case send_try_producer env queue message st of
        (Returns b, st') \<Rightarrow> (Returns b, st')
      | (Throws e, st') \<Rightarrow> (Returns False, setTimeout Reconnect 5000 (clear_refs st')))"

section \<open>The backend (backend/server.js)\<close>

subsection \<open>Connecting with a bounded number of attempts\<close>

text \<open>One iteration's \<open>try\<close> block (lines 66-89) of the loop of \<open>connectToRabbitMQ\<close>.\<close>

definition attempt_backend ::
  "env \<Rightarrow> rabbit \<Rightarrow> (conn option \<times> chan option) completion \<times> rabbit" where
  "attempt_backend env st =
     (let st0 = st\<lparr>connects := Suc (connects st)\<rparr> in
      case amqp_connect env (connects st) of
        Inl e \<Rightarrow> (Throws e, st0)
      | Inr c \<Rightarrow>
          let st1 = after_connect c st0 in
          (case createChannel env c of
             Inl e \<Rightarrow> (Throws e, st1)
           | Inr ch \<Rightarrow>
               let st2 = declare_queue ch ''image_processing'' (after_channel ch st1) in
               (case assertQueue env ch ''image_processing'' of
                  Some e \<Rightarrow> (Throws e, st2)
                | None \<Rightarrow>
                    let st3 = declare_queue ch ''metadata_enrichment'' st2 in
                    (case assertQueue env ch ''metadata_enrichment'' of
                       Some e \<Rightarrow> (Throws e, st3)
                     | None \<Rightarrow>
                         (case install_listeners st3 of
                            (Throws e, st4) \<Rightarrow> (Throws e, st4)
                          | (Returns u, st4) \<Rightarrow>
                              (Returns (rabbitConnection st4, rabbitChannel st4), st4))))))"

text \<open>
  The loop \<open>for (let attempt = 1; attempt <= retries; attempt++)\<close> (lines 65-99) and
  the statements after it (lines 101-104). A failed attempt that is not the last one
  awaits a timer of \<open>delay\<close> milliseconds; the \<open>catch\<close> leaves the two references as
  the attempt left them.
\<close>

function connect_loop_backend ::
  "env \<Rightarrow> nat \<Rightarrow> nat \<Rightarrow> nat \<Rightarrow> rabbit \<Rightarrow> (conn option \<times> chan option) completion \<times> rabbit" where
  "connect_loop_backend env retries delay attempt st =
     (if attempt \<le> retries then
        (case attempt_backend env st of
           (Returns r, st') \<Rightarrow> (Returns r, st')
         | (Throws e, st') \<Rightarrow>
             connect_loop_backend env retries delay (Suc attempt)
               (if attempt < retries then st'\<lparr>slept := slept st' @ [delay]\<rparr> else st'))
      else (Returns (None, None), st))"
  by pat_completeness auto
termination
  by (relation "measure (\<lambda>(env, retries, delay, attempt, st). Suc retries - attempt)") auto

declare connect_loop_backend.simps [simp del]

definition connectToRabbitMQ_backend ::
  "env \<Rightarrow> nat \<Rightarrow> nat \<Rightarrow> rabbit \<Rightarrow> (conn option \<times> chan option) completion \<times> rabbit" where
  "connectToRabbitMQ_backend env retries delay st = connect_loop_backend env retries delay 1 st"



subsection \<open>Publishing\<close>

definition send_try_backend :: "env \<Rightarrow> string \<Rightarrow> jsvalue \<Rightarrow> rabbit \<Rightarrow> bool completion \<times> rabbit" where
  \<comment> \<open>the \<open>try\<close> block of \<open>sendToQueue\<close> (lines 109-127)\<close>
  "send_try_backend env queue message st =
     (if rabbitChannel st = None then (Returns False, st)
      else send_on_channel env queue message st)"

definition sendToQueue_backend :: "env \<Rightarrow> string \<Rightarrow> jsvalue \<Rightarrow> rabbit \<Rightarrow> bool completion \<times> rabbit" where
  \<comment> \<open>with the \<open>catch\<close> (lines 128-131), which only logs\<close>
  "sendToQueue_backend env queue message st =
     (case send_try_backend env queue message st of
        (Returns b, st') \<Rightarrow> (Returns b, st')
      | (Throws e, st') \<Rightarrow> (Returns False, st'))"

subsection \<open>The database and the process state\<close>

text \<open>
  A field of a request body is absent (\<open>undefined\<close>), \<open>null\<close>, or a value of the type
  the route expects. A row of \<open>games\<close> has the columns the two routes below write
  (\<open>None\<close> is SQL \<open>NULL\<close>); \<open>platforms\<close> and \<open>genres\<close> are the ids present.
  \<open>collation_eq\<close> is the equality of strings under the connection's collation.
  The process state of the backend is the broker state, the module variable \<open>pool\<close>
  (only whether it is set), the database behind it, and what \<open>initializeApp\<close> does to
  the process. \<open>getConnection k\<close> is the outcome of the call of
  \<open>pool.getConnection()\<close> made after \<open>k\<close> earlier ones.
\<close>

datatype 'a js = Undefined | Null | Val 'a

record game =
  id_col :: nat
  title_col :: "string option"
  platform_id :: "nat option"
  genre_id :: "nat option"
  developer_col :: "string option"
  release_year :: "nat option"
  year_category :: "string option"
  description_col :: "string option"
  image_url :: "string option"
  processing_status :: "string option"
  metadata_status :: "string option"

record database =
  platforms :: "nat list"
  genres :: "nat list"
  games :: "game list"
  auto_increment :: nat
  collation_eq :: "string \<Rightarrow> string \<Rightarrow> bool"

record server =
  rabbit :: rabbit
  pool :: bool
  database :: database
  db_attempts :: nat
  db_slept :: "nat list"
  listening :: bool
  exit_code :: "nat option"

subsection \<open>Start-up\<close>

text \<open>
  \<open>connectToDatabase\<close> (lines 21-56): the pool is created anew in every attempt, and
  after the last failed attempt the last error is thrown. (With \<open>retries = 0\<close>, which no
  call passes, the source would throw \<open>null\<close>; that is written \<open>JsError ''null''\<close> here.)
\<close>

function connect_loop_database ::
  "(nat \<Rightarrow> jserror option) \<Rightarrow> nat \<Rightarrow> nat \<Rightarrow> nat \<Rightarrow> jserror option \<Rightarrow> server
     \<Rightarrow> unit completion \<times> server" where
  "connect_loop_database getConnection retries delay attempt lastError sv =
     (if attempt \<le> retries then
        (let sv1 = sv\<lparr>pool := True, db_attempts := Suc (db_attempts sv)\<rparr> in
         case getConnection (db_attempts sv) of
           None \<Rightarrow> (Returns (), sv1)
         | Some e \<Rightarrow>
             connect_loop_database getConnection retries delay (Suc attempt) (Some e)
               (if attempt < retries then sv1\<lparr>db_slept := db_slept sv1 @ [delay]\<rparr> else sv1))
      else (Throws (case lastError of None \<Rightarrow> JsError ''null'' | Some e \<Rightarrow> e), sv))"
  by pat_completeness auto
termination
  by (relation "measure (\<lambda>(g, retries, delay, attempt, l, sv). Suc retries - attempt)") auto

declare connect_loop_database.simps [simp del]

definition connectToDatabase ::
  "(nat \<Rightarrow> jserror option) \<Rightarrow> nat \<Rightarrow> nat \<Rightarrow> server \<Rightarrow> unit completion \<times> server" where
  "connectToDatabase getConnection retries delay sv =
     connect_loop_database getConnection retries delay 1 None sv"

definition process_exit :: "nat \<Rightarrow> server \<Rightarrow> server" where
  "process_exit code sv = sv\<lparr>exit_code := Some code\<rparr>"

definition initializeApp :: "env \<Rightarrow> (nat \<Rightarrow> jserror option) \<Rightarrow> server \<Rightarrow> server" where
  \<comment> \<open>lines 138-156; both calls take the default arguments \<open>retries = 5, delay = 5000\<close>\<close>
  "initializeApp env getConnection sv =
     (case connectToDatabase getConnection 5 5000 sv of
        (Throws e, sv1) \<Rightarrow> process_exit 1 sv1
      | (Returns u, sv1) \<Rightarrow>
          (case connectToRabbitMQ_backend env 5 5000 (rabbit sv1) of
             (Throws e, st) \<Rightarrow> process_exit 1 (sv1\<lparr>rabbit := st\<rparr>)
           | (Returns (connection, channel), st) \<Rightarrow>
               sv1\<lparr>rabbit := st\<lparr>rabbitConnection := connection, rabbitChannel := channel\<rparr>,
                   listening := True\<rparr>))"

subsection \<open>The routes that create and update a game\<close>

text \<open>
  \<open>qfail k\<close> tells whether the \<open>k\<close>-th call of \<open>pool.query\<close> made by a request throws
  (any database error); a query that does not throw has the effect written here.
\<close>

record request =
  title :: "string js"
  platformId :: "nat js"
  genreId :: "nat js"
  developer :: "string js"
  releaseYear :: "nat js"
  yearCategory :: "string js"
  description :: "string js"
  imageUrl :: "string js"

datatype reply = Message string | GameReply nat request string "string option"

type_synonym response = "nat \<times> reply"

definition truthy_str :: "string js \<Rightarrow> bool" where
  "truthy_str v = (case v of Val s \<Rightarrow> s \<noteq> [] | _ \<Rightarrow> False)"

definition truthy_num :: "nat js \<Rightarrow> bool" where
  "truthy_num v = (case v of Val n \<Rightarrow> n \<noteq> 0 | _ \<Rightarrow> False)"

definition required_missing :: "request \<Rightarrow> bool" where
  \<comment> \<open>\<open>!title || !platformId || !genreId || !developer || !releaseYear || !yearCategory || !description\<close>\<close>
  "required_missing b \<longleftrightarrow>
     \<not> truthy_str (title b) \<or> \<not> truthy_num (platformId b) \<or> \<not> truthy_num (genreId b) \<or>
     \<not> truthy_str (developer b) \<or> \<not> truthy_num (releaseYear b) \<or>
     \<not> truthy_str (yearCategory b) \<or> \<not> truthy_str (description b)"

definition or_null :: "string js \<Rightarrow> string option" where
  \<comment> \<open>\<open>imageUrl || null\<close>\<close>
  "or_null v = (case v of Val s \<Rightarrow> if s = [] then None else Some s | _ \<Rightarrow> None)"

definition sql_param :: "'a js \<Rightarrow> 'a option" where
  \<comment> \<open>a bound parameter: \<open>undefined\<close> and \<open>null\<close> are both written \<open>NULL\<close>\<close>
  "sql_param v = (case v of Val x \<Rightarrow> Some x | _ \<Rightarrow> None)"

definition select_id :: "nat list \<Rightarrow> nat js \<Rightarrow> nat list" where
  \<comment> \<open>\<open>SELECT id FROM t WHERE id = ?\<close>\<close>
  "select_id ids v = (case v of Val n \<Rightarrow> filter (\<lambda>i. i = n) ids | _ \<Rightarrow> [])"

definition json_of_str :: "string js \<Rightarrow> jsvalue" where
  "json_of_str v = (case v of Undefined \<Rightarrow> JUndefined | Null \<Rightarrow> JNull | Val s \<Rightarrow> JString s)"

definition json_of_opt :: "string option \<Rightarrow> jsvalue" where
  "json_of_opt v = (case v of None \<Rightarrow> JNull | Some s \<Rightarrow> JString s)"

definition image_message :: "nat \<Rightarrow> request \<Rightarrow> jsvalue" where
  "image_message gameId b =
     JObject [(''gameId'', JNumber (int gameId)), (''imageUrl'', json_of_opt (or_null (imageUrl b)))]"

definition metadata_message :: "nat \<Rightarrow> request \<Rightarrow> jsvalue" where
  "metadata_message gameId b =
     JObject [(''gameId'', JNumber (int gameId)), (''title'', json_of_str (title b)),
              (''developer'', json_of_str (developer b))]"

definition insert_game :: "request \<Rightarrow> database \<Rightarrow> nat \<times> database" where
  \<comment> \<open>the \<open>INSERT INTO games\<close> of lines 346-363; the result is \<open>insertId\<close> and the new database\<close>
  "insert_game b db =
     (let row = \<lparr>id_col = auto_increment db, title_col = sql_param (title b),
                 platform_id = sql_param (platformId b), genre_id = sql_param (genreId b),
                 developer_col = sql_param (developer b), release_year = sql_param (releaseYear b),
                 year_category = sql_param (yearCategory b),
                 description_col = sql_param (description b), image_url = or_null (imageUrl b),
                 processing_status = Some ''pending'', metadata_status = Some ''pending''\<rparr>
      in (auto_increment db,
          db\<lparr>games := games db @ [row], auto_increment := Suc (auto_increment db)\<rparr>))"

definition post_games_try ::
  "env \<Rightarrow> (nat \<Rightarrow> jserror option) \<Rightarrow> request \<Rightarrow> server \<Rightarrow> response completion \<times> server" where
  \<comment> \<open>the \<open>try\<close> block of \<open>POST /api/games\<close> (lines 322-397); the two \<open>sendToQueue\<close> calls are
      not awaited and their results are dropped\<close>
  "post_games_try env qfail b sv =
     (if \<not> pool sv then (Returns (503, Message ''Database connection not available''), sv)
      else if required_missing b then
        (Returns (400, Message ''All fields are required except imageUrl''), sv)
      else case qfail 0 of Some e \<Rightarrow> (Throws e, sv) | None \<Rightarrow>
        if select_id (platforms (database sv)) (platformId b) = [] then
          (Returns (400, Message ''Invalid platform ID''), sv)
        else (case qfail 1 of Some e \<Rightarrow> (Throws e, sv) | None \<Rightarrow>
          if select_id (genres (database sv)) (genreId b) = [] then
            (Returns (400, Message ''Invalid genre ID''), sv)
          else (case qfail 2 of Some e \<Rightarrow> (Throws e, sv) | None \<Rightarrow>
            let (newGameId, db') = insert_game b (database sv);
                sv1 = sv\<lparr>database := db'\<rparr>;
                sv2 = (if newGameId \<noteq> 0 \<and> rabbitChannel (rabbit sv1) \<noteq> None then
                         let r1 = snd (sendToQueue_backend env ''image_processing''
                                         (image_message newGameId b) (rabbit sv1));
                             r2 = snd (sendToQueue_backend env ''metadata_enrichment''
                                         (metadata_message newGameId b) r1)
                         in sv1\<lparr>rabbit := r2\<rparr>
                       else sv1)
            in (Returns (201, GameReply newGameId b ''pending'' (Some ''pending'')), sv2))))"

definition post_games :: "env \<Rightarrow> (nat \<Rightarrow> jserror option) \<Rightarrow> request \<Rightarrow> server \<Rightarrow> response \<times> server" where
  "post_games env qfail b sv =
     (case post_games_try env qfail b sv of
        (Returns r, sv') \<Rightarrow> (r, sv')
      | (Throws e, sv') \<Rightarrow> ((500, Message ''Failed to create game''), sv'))"

definition sql_ne :: "(string \<Rightarrow> string \<Rightarrow> bool) \<Rightarrow> string option \<Rightarrow> string option \<Rightarrow> bool option" where
  \<comment> \<open>SQL \<open>a != b\<close>: \<open>NULL\<close> (\<open>None\<close>) when either side is \<open>NULL\<close>\<close>
  "sql_ne ceq a b = (case (a, b) of (Some x, Some y) \<Rightarrow> Some (\<not> ceq x y) | _ \<Rightarrow> None)"

definition strict_ne :: "string js \<Rightarrow> string option \<Rightarrow> bool" where
  \<comment> \<open>JavaScript \<open>imageUrl !== oldImageUrl\<close>, the right side read from a row (\<open>null\<close> or a string)\<close>
  "strict_ne v old =
     (case (v, old) of (Null, None) \<Rightarrow> False | (Val s, Some t) \<Rightarrow> s \<noteq> t | _ \<Rightarrow> True)"

definition update_game :: "nat \<Rightarrow> request \<Rightarrow> string option \<Rightarrow> database \<Rightarrow> database" where
  \<comment> \<open>the \<open>UPDATE games ... WHERE id = ?\<close> of lines 438-457\<close>
  "update_game i b oldImageUrl db =
     db\<lparr>games := map (\<lambda>g. if id_col g = i then
            g\<lparr>title_col := sql_param (title b), platform_id := sql_param (platformId b),
              genre_id := sql_param (genreId b), developer_col := sql_param (developer b),
              release_year := sql_param (releaseYear b),
              year_category := sql_param (yearCategory b),
              description_col := sql_param (description b), image_url := or_null (imageUrl b),
              processing_status :=
                (if sql_ne (collation_eq db) (sql_param (imageUrl b)) oldImageUrl = Some True
                 then Some ''pending'' else processing_status g)\<rparr>
          else g) (games db)\<rparr>"

definition put_games_try ::
  "env \<Rightarrow> (nat \<Rightarrow> jserror option) \<Rightarrow> nat \<Rightarrow> request \<Rightarrow> server \<Rightarrow> response completion \<times> server" where
  \<comment> \<open>the \<open>try\<close> block of \<open>PUT /api/games/:id\<close> (lines 406-478), \<open>i\<close> the id of the path\<close>
  "put_games_try env qfail i b sv =
     (if \<not> pool sv then (Returns (503, Message ''Database connection not available''), sv)
      else if required_missing b then
        (Returns (400, Message ''All fields are required except imageUrl''), sv)
      else case qfail 0 of Some e \<Rightarrow> (Throws e, sv) | None \<Rightarrow>
        (case filter (\<lambda>g. id_col g = i) (games (database sv)) of
           [] \<Rightarrow> (Returns (404, Message ''Game not found''), sv)
         | g0 # rest \<Rightarrow>
            let oldImageUrl = image_url g0 in
            (case qfail 1 of Some e \<Rightarrow> (Throws e, sv) | None \<Rightarrow>
              if select_id (platforms (database sv)) (platformId b) = [] then
                (Returns (400, Message ''Invalid platform ID''), sv)
              else (case qfail 2 of Some e \<Rightarrow> (Throws e, sv) | None \<Rightarrow>
                if select_id (genres (database sv)) (genreId b) = [] then
                  (Returns (400, Message ''Invalid genre ID''), sv)
                else (case qfail 3 of Some e \<Rightarrow> (Throws e, sv) | None \<Rightarrow>
                  let sv1 = sv\<lparr>database := update_game i b oldImageUrl (database sv)\<rparr>;
                      sv2 = (if strict_ne (imageUrl b) oldImageUrl \<and> rabbitChannel (rabbit sv1) \<noteq> None
                             then sv1\<lparr>rabbit := snd (sendToQueue_backend env ''image_processing''
                                                       (image_message i b) (rabbit sv1))\<rparr>
                             else sv1)
                  in (Returns (200, GameReply i b
                         (if strict_ne (imageUrl b) oldImageUrl then ''pending'' else ''completed'')
                         None), sv2))))))"

definition put_games :: "env \<Rightarrow> (nat \<Rightarrow> jserror option) \<Rightarrow> nat \<Rightarrow> request \<Rightarrow> server \<Rightarrow> response \<times> server" where
  "put_games env qfail i b sv =
     (case put_games_try env qfail i b sv of
        (Returns r, sv') \<Rightarrow> (r, sv')
      | (Throws e, sv') \<Rightarrow> ((500, Message ''Failed to update game''), sv'))"

section \<open>The consumer\<close>

text \<open>
  Modelled from the spec: the consumer process. The services that subscribe to the
  queues are named by the compose file and the README but their code is not among the
  sources, so the definitions of this section follow the specification's section 4.3:
  each received envelope is deserialized and handed to the handler, and the outcome
  decides between acknowledge, negative-acknowledge with requeue and
  negative-acknowledge without requeue.
\<close>

record envelope =
  payload :: "byte list"
  delivery_tag :: nat
  redelivered :: bool

datatype settlement = Ack | Nack bool

datatype consumer_error = HandlerError | MalformedMessageError

definition dispatch ::
  "(byte list \<Rightarrow> 'p option) \<Rightarrow> (nat \<Rightarrow> 'p \<Rightarrow> consumer_error option) \<Rightarrow> nat \<Rightarrow> envelope \<Rightarrow> settlement" where
  \<comment> \<open>Modelled from the spec: the acknowledgment policy of the consumer, for the \<open>k\<close>-th
      delivery; \<open>deserialize\<close> gives \<open>None\<close> on a payload that cannot be parsed and
      \<open>handler k p\<close> is the error the handler raises, if any\<close>
  "dispatch deserialize handler k e =
     (case deserialize (payload e) of
        None \<Rightarrow> Nack False
      | Some p \<Rightarrow>
          (case handler k p of
             None \<Rightarrow> Ack
           | Some HandlerError \<Rightarrow> Nack True
           | Some MalformedMessageError \<Rightarrow> Nack False))"

fun settle :: "settlement \<Rightarrow> envelope \<Rightarrow> envelope list \<Rightarrow> envelope list" where
  \<comment> \<open>Modelled from the spec: the broker's queue after the head \<open>e\<close> is settled; a requeued
      envelope is marked redelivered and may come after newer ones\<close>
  "settle Ack e q = q"
| "settle (Nack True) e q = q @ [e\<lparr>redelivered := True\<rparr>]"
| "settle (Nack False) e q = q"

fun consume ::
  "(byte list \<Rightarrow> 'p option) \<Rightarrow> (nat \<Rightarrow> 'p \<Rightarrow> consumer_error option) \<Rightarrow> nat \<Rightarrow> nat \<Rightarrow> envelope list
     \<Rightarrow> (envelope \<times> settlement) list \<times> envelope list" where
  \<comment> \<open>Modelled from the spec: the consumer receives envelopes one at a time, at most
      \<open>n\<close> of them; the result is the deliveries made with their outcome and the queue left\<close>
  "consume deserialize handler 0 k q = ([], q)"
| "consume deserialize handler (Suc n) k [] = ([], [])"
| "consume deserialize handler (Suc n) k (e # q) =
     (let s = dispatch deserialize handler k e;
          r = consume deserialize handler n (Suc k) (settle s e q)
      in ((e, s) # fst r, snd r))"

section \<open>The producer as an event loop\<close>

text \<open>
  \<open>connectToRabbitMQ\<close> is an \<open>async\<close> function: it runs until an \<open>await\<close>, is suspended
  there, and resumes when the awaited call settles; meanwhile timers, listeners, other
  calls of \<open>connectToRabbitMQ\<close> and \<open>sendToQueue\<close> run. A suspended call is at the
  \<open>await\<close> of \<open>amqp.connect\<close> (line 27), of \<open>createChannel\<close> (line 28) or of \<open>assertQueue\<close>
  (line 31); it remembers the \<open>sendToQueue\<close> call that awaits it (line 62), if any, and
  that call resumes after it. The pieces of \<open>connectToRabbitMQ\<close> between two \<open>await\<close>s
  are the functions below; each reads the module variables as they are when it runs.
\<close>

datatype stage = AtConnect | AtChannel | AtAssert

datatype call = Connecting stage "(string \<times> jsvalue) option" | Resuming string jsvalue

record producer =
  vars :: rabbit
  calls :: "call list"
  fired :: nat

definition connect_start :: "rabbit \<Rightarrow> rabbit" where
  \<comment> \<open>lines 25-27 up to the \<open>await\<close>: \<open>amqp.connect\<close> is called\<close>
  "connect_start st = st\<lparr>connects := Suc (connects st)\<rparr>"

definition catch_connect :: "rabbit \<Rightarrow> rabbit" where
  \<comment> \<open>the \<open>catch\<close> of \<open>connectToRabbitMQ\<close> (lines 49-54)\<close>
  "catch_connect st = setTimeout Reconnect 5000 (clear_refs st)"

definition resume_connect :: "jserror + conn \<Rightarrow> rabbit \<Rightarrow> stage option \<times> rabbit" where
  \<comment> \<open>\<open>amqp.connect\<close> settled: line 27 assigns, line 28 calls \<open>createChannel\<close>\<close>
  "resume_connect r st =
     (case r of
        Inl e \<Rightarrow> (None, catch_connect st)
      | Inr c \<Rightarrow> (Some AtChannel, after_connect c st))"

definition resume_channel :: "jserror + chan \<Rightarrow> rabbit \<Rightarrow> stage option \<times> rabbit" where
  \<comment> \<open>\<open>createChannel\<close> settled: line 28 assigns, line 31 calls \<open>assertQueue\<close>\<close>
  "resume_channel r st =
     (case r of
        Inl e \<Rightarrow> (None, catch_connect st)
      | Inr ch \<Rightarrow> (Some AtAssert, declare_queue ch ''game_events'' (after_channel ch st)))"

definition resume_assert :: "jserror option \<Rightarrow> rabbit \<Rightarrow> stage option \<times> rabbit" where
  \<comment> \<open>\<open>assertQueue\<close> settled: lines 33-48 register the listeners on \<open>rabbitConnection\<close>\<close>
  "resume_assert r st =
     (case r of
        Some e \<Rightarrow> (None, catch_connect st)
      | None \<Rightarrow>
          (case install_listeners st of
             (Throws e, st') \<Rightarrow> (None, catch_connect st')
           | (Returns u, st') \<Rightarrow> (None, st')))"

definition resume_sendToQueue ::
  "env \<Rightarrow> string \<Rightarrow> jsvalue \<Rightarrow> rabbit \<Rightarrow> bool completion \<times> rabbit" where
  \<comment> \<open>\<open>sendToQueue\<close> after its \<open>await connectToRabbitMQ()\<close>: lines 63-90\<close>
  "resume_sendToQueue env queue message st =
     (case (if rabbitChannel st = None then (Returns False, st)
            else send_on_channel env queue message st) of
        (Returns b, st') \<Rightarrow> (Returns b, st')
      | (Throws e, st') \<Rightarrow> (Returns False, setTimeout Reconnect 5000 (clear_refs st')))"

definition continue ::
  "nat \<Rightarrow> (string \<times> jsvalue) option \<Rightarrow> stage option \<Rightarrow> call list \<Rightarrow> call list" where
  \<comment> \<open>the suspended call number \<open>i\<close> goes on to its next \<open>await\<close>, or ends and lets the
      \<open>sendToQueue\<close> call that awaited it resume\<close>
  "continue i caller next cs =
     take i cs @
     (case next of
        Some s \<Rightarrow> [Connecting s caller]
      | None \<Rightarrow> (case caller of None \<Rightarrow> [] | Some (q, m) \<Rightarrow> [Resuming q m])) @
     drop (Suc i) cs"

text \<open>
  The events of the loop. A timer set by \<open>setTimeout\<close> fires (each once) and calls
  \<open>connectToRabbitMQ\<close>; the call awaited by the suspended call number \<open>i\<close> settles with
  the given outcome; a connection emits a signal; \<open>sendToQueue\<close> is called, and runs to
  its end when a channel reference is held (the only case in which the routes call it)
  and otherwise calls \<open>connectToRabbitMQ\<close> and is suspended; a suspended \<open>sendToQueue\<close>
  resumes. \<open>step\<close> is
  \<open>None\<close> when the event cannot happen in the configuration.
\<close>

datatype event =
    TimerFires
  | ConnectSettles nat "jserror + conn"
  | ChannelSettles nat "jserror + chan"
  | AssertSettles nat "jserror option"
  | Emits conn signal
  | SendCalled env string jsvalue
  | SendResumes nat env

fun step :: "event \<Rightarrow> producer \<Rightarrow> producer option" where
  "step TimerFires cfg =
     (if fired cfg < length (timeouts (vars cfg)) then
        Some (cfg\<lparr>vars := connect_start (vars cfg),
                  calls := calls cfg @ [Connecting AtConnect None],
                  fired := Suc (fired cfg)\<rparr>)
      else None)"
| "step (ConnectSettles i r) cfg =
     (if i < length (calls cfg) then
        (case calls cfg ! i of
           Connecting AtConnect caller \<Rightarrow>
             Some (cfg\<lparr>vars := snd (resume_connect r (vars cfg)),
                       calls := continue i caller (fst (resume_connect r (vars cfg))) (calls cfg)\<rparr>)
         | _ \<Rightarrow> None)
      else None)"
| "step (ChannelSettles i r) cfg =
     (if i < length (calls cfg) then
        (case calls cfg ! i of
           Connecting AtChannel caller \<Rightarrow>
             Some (cfg\<lparr>vars := snd (resume_channel r (vars cfg)),
                       calls := continue i caller (fst (resume_channel r (vars cfg))) (calls cfg)\<rparr>)
         | _ \<Rightarrow> None)
      else None)"
| "step (AssertSettles i r) cfg =
     (if i < length (calls cfg) then
        (case calls cfg ! i of
           Connecting AtAssert caller \<Rightarrow>
             Some (cfg\<lparr>vars := snd (resume_assert r (vars cfg)),
                       calls := continue i caller (fst (resume_assert r (vars cfg))) (calls cfg)\<rparr>)
         | _ \<Rightarrow> None)
      else None)"
| "step (Emits c sg) cfg = Some (cfg\<lparr>vars := emit_producer c sg (vars cfg)\<rparr>)"
| "step (SendCalled env q m) cfg =
     (if rabbitChannel (vars cfg) = None then
        Some (cfg\<lparr>vars := connect_start (vars cfg),
                  calls := calls cfg @ [Connecting AtConnect (Some (q, m))]\<rparr>)
      else Some (cfg\<lparr>vars := snd (sendToQueue_producer env q m (vars cfg))\<rparr>))"
| "step (SendResumes i env) cfg =
     (if i < length (calls cfg) then
        (case calls cfg ! i of
           Resuming q m \<Rightarrow>
             Some (cfg\<lparr>vars := snd (resume_sendToQueue env q m (vars cfg)),
                       calls := take i (calls cfg) @ drop (Suc i) (calls cfg)\<rparr>)
         | _ \<Rightarrow> None)
      else None)"

fun run :: "event list \<Rightarrow> producer \<Rightarrow> producer option" where
  "run [] cfg = Some cfg"
| "run (ev # evs) cfg = (case step ev cfg of None \<Rightarrow> None | Some cfg' \<Rightarrow> run evs cfg')"

definition producer_start :: producer where
  \<comment> \<open>the module is loaded: line 94 calls \<open>connectToRabbitMQ()\<close>, which is suspended at line 27\<close>
  "producer_start =
     \<lparr>vars = connect_start initial, calls = [Connecting AtConnect None], fired = 0\<rparr>"

inductive reachable_producer :: "producer \<Rightarrow> bool" where
  start: "reachable_producer producer_start"
| step: "reachable_producer cfg \<Longrightarrow> step ev cfg = Some cfg' \<Longrightarrow> reachable_producer cfg'"

section \<open>Example transports and states\<close>

text \<open>
  A broker that accepts everything (the \<open>k\<close>-th connection is the object \<open>k\<close>, its
  channel has the same number), one that refuses every connection, one whose channel
  throws on a send, and one whose write buffer is full.
\<close>

definition env_up :: env where
  "env_up = \<lparr>amqp_connect = (\<lambda>k. Inr k), createChannel = (\<lambda>c. Inr c),
     assertQueue = (\<lambda>ch q. None), channel_sendToQueue = (\<lambda>k ch q b. Inr True),
     JSON_stringify = (\<lambda>m. Inr (Some ''{}'')), Buffer_from = map of_char\<rparr>"

definition env_down :: env where
  "env_down = \<lparr>amqp_connect = (\<lambda>k. Inl (JsError ''ECONNREFUSED'')),
     createChannel = (\<lambda>c. Inr c),
     assertQueue = (\<lambda>ch q. None), channel_sendToQueue = (\<lambda>k ch q b. Inr True),
     JSON_stringify = (\<lambda>m. Inr (Some ''{}'')), Buffer_from = map of_char\<rparr>"

definition env_closed :: env where
  "env_closed = env_up\<lparr>channel_sendToQueue := (\<lambda>k ch q b. Inl (JsError ''Channel closed''))\<rparr>"

definition env_full :: env where
  "env_full = env_up\<lparr>channel_sendToQueue := (\<lambda>k ch q b. Inr False)\<rparr>"

definition connected :: rabbit where
  "connected = initial\<lparr>rabbitConnection := Some 0, rabbitChannel := Some 0, connects := 1,
     listeners := [(0, ErrorSignal), (0, CloseSignal)]\<rparr>"

text \<open>
  A database with one game whose image URL is \<open>NULL\<close>, under a binary collation; a
  backend before start-up, one that runs without a broker and one with a live channel;
  a request body without an image URL.
\<close>

definition db0 :: database where
  "db0 = \<lparr>platforms = [1, 2], genres = [1, 2],
     games = [\<lparr>id_col = 1, title_col = Some ''Tetris'', platform_id = Some 1, genre_id = Some 2,
                developer_col = Some ''Nintendo'', release_year = Some 1989,
                year_category = Some ''1980s'', description_col = Some ''Blocks'',
                image_url = None, processing_status = Some ''completed'',
                metadata_status = Some ''completed''\<rparr>],
     auto_increment = 2, collation_eq = (=)\<rparr>"

definition server_boot :: server where
  "server_boot = \<lparr>rabbit = initial, pool = False, database = db0, db_attempts = 0,
     db_slept = [], listening = False, exit_code = None\<rparr>"

definition server0 :: server where
  "server0 = \<lparr>rabbit = initial, pool = True, database = db0, db_attempts = 1, db_slept = [],
     listening = True, exit_code = None\<rparr>"

definition server1 :: server where
  "server1 = server0\<lparr>rabbit := connected\<rparr>"

definition request0 :: request where
  "request0 = \<lparr>title = Val ''Zelda'', platformId = Val 1, genreId = Val 2,
     developer = Val ''Nintendo'', releaseYear = Val 1986, yearCategory = Val ''1980s'',
     description = Val ''Adventure'', imageUrl = Null\<rparr>"

text \<open>
  A deserializer that rejects the empty payload, an envelope it rejects and one it
  accepts, and a handler that fails on the first delivery only.
\<close>

definition parse0 :: "byte list \<Rightarrow> byte list option" where
  "parse0 bs = (if bs = [] then None else Some bs)"

definition poison :: envelope where
  "poison = \<lparr>payload = [], delivery_tag = 1, redelivered = False\<rparr>"

definition valid :: envelope where
  "valid = \<lparr>payload = [123, 125], delivery_tag = 2, redelivered = False\<rparr>"

definition flaky :: "nat \<Rightarrow> byte list \<Rightarrow> consumer_error option" where
  "flaky k p = (if k = 0 then Some HandlerError else None)"

text \<open>
  Two runs of the producer's event loop, with their last configurations. In \<open>race\<close>
  the start-up call connects; the connection emits \<open>error\<close> and then \<open>close\<close>, so two
  timers are set; both fire and two calls of \<open>connectToRabbitMQ\<close> overlap; the first gets
  a connection, the second is refused, and then the first gets its channel.
  \<open>first_connect\<close> is its beginning, the start-up call alone.
\<close>

definition race :: "event list" where
  "race = [ConnectSettles 0 (Inr 0), ChannelSettles 0 (Inr 0), AssertSettles 0 None,
           Emits 0 ErrorSignal, Emits 0 CloseSignal, TimerFires, TimerFires,
           ConnectSettles 0 (Inr 1), ConnectSettles 1 (Inl (JsError ''ECONNREFUSED'')),
           ChannelSettles 0 (Inr 1)]"

definition race_end :: producer where
  "race_end =
     \<lparr>vars = \<lparr>rabbitConnection = None, rabbitChannel = Some 1,
               timeouts = [(Reconnect, 5000), (Reconnect, 5000), (Reconnect, 5000)],
               listeners = [(0, ErrorSignal), (0, CloseSignal)], connects = 3,
               declared = [(0, ''game_events'', True), (1, ''game_events'', True)],
               sendCalls = [], slept = []\<rparr>,
      calls = [Connecting AtAssert None], fired = 2\<rparr>"

definition first_connect :: "event list" where
  "first_connect = [ConnectSettles 0 (Inr 0), ChannelSettles 0 (Inr 0), AssertSettles 0 None]"

definition producer_connected :: producer where
  "producer_connected =
     \<lparr>vars = \<lparr>rabbitConnection = Some 0, rabbitChannel = Some 0, timeouts = [],
               listeners = [(0, ErrorSignal), (0, CloseSignal)], connects = 1,
               declared = [(0, ''game_events'', True)], sendCalls = [], slept = []\<rparr>,
      calls = [], fired = 0\<rparr>"

text \<open>
  The body the edit form of the repository's frontend sends when the image field is left
  empty.
\<close>

definition request_blank_image :: request where
  "request_blank_image = request0\<lparr>imageUrl := Val ''''\<rparr>"

section \<open>Auxiliary predicates\<close>

text \<open>
  What a run of the backend's connection loop from attempt number \<open>attempt\<close> guarantees
  about its result \<open>r\<close>: it returns, it calls \<open>amqp.connect\<close> at least once when an
  attempt is left and at most once per attempt left, it has slept once between two
  attempts, and it returns the pair of \<open>null\<close>s only when every attempt was used.
\<close>

definition bounded_run ::
  "nat \<Rightarrow> nat \<Rightarrow> nat \<Rightarrow> rabbit \<Rightarrow> (conn option \<times> chan option) completion \<times> rabbit \<Rightarrow> bool" where
  "bounded_run retries delay attempt st r \<longleftrightarrow>
     (\<exists>v. fst r = Returns v) \<and>
     connects st \<le> connects (snd r) \<and>
     connects (snd r) \<le> connects st + (Suc retries - attempt) \<and>
     (attempt \<le> retries \<longrightarrow> Suc (connects st) \<le> connects (snd r)) \<and>
     slept (snd r) = slept st @ replicate (connects (snd r) - Suc (connects st)) delay \<and>
     (fst r = Returns (None, None) \<and> connects (snd r) = connects st + (Suc retries - attempt) \<or>
      (\<exists>c ch. fst r = Returns (Some c, Some ch) \<and> rabbitConnection (snd r) = Some c \<and>
         rabbitChannel (snd r) = Some ch))"

text \<open>
  Some call of \<open>connectToRabbitMQ\<close> is suspended at the \<open>await\<close> of \<open>assertQueue\<close>, that is
  after it has assigned the channel; and the property of a configuration that the
  channel reference is set while the connection reference is \<open>null\<close> only then.
\<close>

definition at_assert :: "producer \<Rightarrow> bool" where
  "at_assert cfg \<longleftrightarrow> (\<exists>caller. Connecting AtAssert caller \<in> set (calls cfg))"

definition split_only_at_assert :: "producer \<Rightarrow> bool" where
  "split_only_at_assert cfg \<longleftrightarrow>
     (rabbitChannel (vars cfg) \<noteq> None \<and> rabbitConnection (vars cfg) = None \<longrightarrow> at_assert cfg)"

section \<open>Properties of connecting and publishing\<close>

lemmas state_defs = clear_refs_def setTimeout_def after_connect_def after_channel_def
  declare_queue_def install_listeners_def

subsection \<open>Basic facts\<close>

lemma connect_try_producer_connects:
  "connects (snd (connect_try_producer env st)) = Suc (connects st)"
  by (simp add: connect_try_producer_def state_defs Let_def split: sum.splits option.splits)

lemma connectToRabbitMQ_producer_connects:
  "connects (connectToRabbitMQ_producer env st) = Suc (connects st)"
  using connect_try_producer_connects [of env st]
  by (auto simp add: connectToRabbitMQ_producer_def state_defs
      split: prod.splits completion.splits)



lemma attempt_backend_connects:
  "connects (snd (attempt_backend env st)) = Suc (connects st)"
  by (simp add: attempt_backend_def state_defs Let_def split: sum.splits option.splits)

lemma attempt_backend_slept:
  "slept (snd (attempt_backend env st)) = slept st"
  by (simp add: attempt_backend_def state_defs Let_def split: sum.splits option.splits)

lemma attempt_backend_Returns:
  "attempt_backend env st = (Returns v, st') \<Longrightarrow>
     \<exists>c ch. v = (Some c, Some ch) \<and> rabbitConnection st' = Some c \<and> rabbitChannel st' = Some ch"
  by (auto simp add: attempt_backend_def state_defs Let_def split: sum.splits option.splits)

lemma attempt_backend_down:
  "amqp_connect env (connects st) = Inl e \<Longrightarrow>
     attempt_backend env st = (Throws e, st\<lparr>connects := Suc (connects st)\<rparr>)"
  by (simp add: attempt_backend_def)

lemma send_on_channel_connects: "connects (snd (send_on_channel env q m st)) = connects st"
  by (simp add: send_on_channel_def Let_def split: option.splits sum.splits)

lemma send_on_channel_throws:
  assumes "rabbitChannel st = Some ch" and "JSON_stringify env m = Inr (Some s)"
    and "channel_sendToQueue env (length (sendCalls st)) ch q (Buffer_from env s) = Inl e"
  shows "send_on_channel env q m st =
     (Throws e, st\<lparr>sendCalls := sendCalls st @ [(ch, q, Buffer_from env s, True)]\<rparr>)"
  using assms by (simp add: send_on_channel_def Let_def)

lemma send_on_channel_returns:
  assumes "rabbitChannel st = Some ch" and "JSON_stringify env m = Inr (Some s)"
    and "channel_sendToQueue env (length (sendCalls st)) ch q (Buffer_from env s) = Inr b"
  shows "send_on_channel env q m st =
     (Returns b, st\<lparr>sendCalls := sendCalls st @ [(ch, q, Buffer_from env s, True)]\<rparr>)"
  using assms by (simp add: send_on_channel_def Let_def)

lemma send_on_channel_True:
  assumes "send_on_channel env q m st = (Returns True, st')"
  shows "\<exists>ch s. rabbitChannel st = Some ch \<and> JSON_stringify env m = Inr (Some s) \<and>
     channel_sendToQueue env (length (sendCalls st)) ch q (Buffer_from env s) = Inr True \<and>
     st' = st\<lparr>sendCalls := sendCalls st @ [(ch, q, Buffer_from env s, True)]\<rparr>"
  using assms
  by (auto simp: send_on_channel_def Let_def split: option.splits sum.splits if_splits)

lemma send_on_channel_sendCalls:
  assumes "rabbitChannel st = Some ch"
  shows "sendCalls (snd (send_on_channel env q m st)) =
     (case JSON_stringify env m of
        Inr (Some s) \<Rightarrow> sendCalls st @ [(ch, q, Buffer_from env s, True)]
      | _ \<Rightarrow> sendCalls st)"
  using assms by (simp add: send_on_channel_def Let_def split: sum.splits option.splits)

lemma send_try_producer_eq:
  "send_try_producer env q m st =
     (let st1 = (if rabbitChannel st = None then connectToRabbitMQ_producer env st else st) in
      if rabbitChannel st1 = None then (Returns False, st1) else send_on_channel env q m st1)"
  by (auto simp: send_try_producer_def Let_def)

lemma sendToQueue_producer_live:
  assumes "rabbitChannel st = Some ch"
  shows "sendCalls (snd (sendToQueue_producer env q m st)) =
           sendCalls (snd (send_on_channel env q m st))"
  using assms
  by (auto simp: sendToQueue_producer_def send_try_producer_def state_defs
      split: prod.splits completion.splits)

lemma sendToQueue_backend_live:
  assumes "rabbitChannel st = Some ch"
  shows "sendCalls (snd (sendToQueue_backend env q m st)) =
           sendCalls (snd (send_on_channel env q m st))"
  using assms
  by (auto simp: sendToQueue_backend_def send_try_backend_def split: prod.splits completion.splits)


subsection \<open>Publishing without a channel\<close>

text \<open>
  Claim C1, as stated, for the backend: a call of \<open>sendToQueue\<close> made while the channel
  reference is \<open>null\<close> would call the connect routine exactly once. The backend's
  \<open>sendToQueue\<close> makes no call of \<open>amqp.connect\<close> at all.
\<close>

theorem sendToQueue_backend_never_connects:
  "rabbitChannel initial = None \<and>
   connects (snd (sendToQueue_backend env_down ''image_processing'' JNull initial))
     \<noteq> Suc (connects initial)"
  by (simp add: initial_def sendToQueue_backend_def send_try_backend_def)

text \<open>
  Claim C1, amended: when no channel reference is held, the producer's \<open>sendToQueue\<close>
  runs the connect routine exactly once (one more call of \<open>amqp.connect\<close>, whatever
  happens afterwards) and, if the channel reference is still \<open>null\<close> after it, returns
  \<open>false\<close> in the state the connect routine left; the backend's \<open>sendToQueue\<close> returns
  \<open>false\<close> at once and changes nothing.
\<close>

theorem sendToQueue_without_channel:
  assumes "rabbitChannel st = None"
  shows "connects (snd (sendToQueue_producer env queue message st)) = Suc (connects st) \<and>
         (rabbitChannel (connectToRabbitMQ_producer env st) = None \<longrightarrow>
            sendToQueue_producer env queue message st
              = (Returns False, connectToRabbitMQ_producer env st)) \<and>
         sendToQueue_backend env queue message st = (Returns False, st)"
proof (intro conjI)
  let ?st1 = "connectToRabbitMQ_producer env st"
  show "connects (snd (sendToQueue_producer env queue message st)) = Suc (connects st)"
  proof (cases "rabbitChannel ?st1 = None")
    case True
    with assms show ?thesis
      by (simp add: sendToQueue_producer_def send_try_producer_def
          connectToRabbitMQ_producer_connects)
  next
    case False
    with assms have "send_try_producer env queue message st
        = send_on_channel env queue message ?st1"
      by (auto simp add: send_try_producer_def Let_def)
    moreover have "connects (snd (send_on_channel env queue message ?st1)) = Suc (connects st)"
      by (simp add: send_on_channel_connects connectToRabbitMQ_producer_connects)
    ultimately show ?thesis
      by (auto simp add: sendToQueue_producer_def state_defs
          split: prod.splits completion.splits)
  qed
  show "rabbitChannel ?st1 = None \<longrightarrow>
           sendToQueue_producer env queue message st = (Returns False, ?st1)"
    using assms by (simp add: sendToQueue_producer_def send_try_producer_def)
  show "sendToQueue_backend env queue message st = (Returns False, st)"
    using assms by (simp add: sendToQueue_backend_def send_try_backend_def)
qed

theorem sendToQueue_without_channel_witness:
  "rabbitChannel initial = None \<and>
   connects (snd (sendToQueue_producer env_down ''game_events'' JNull initial)) = 1 \<and>
   sendToQueue_backend env_down ''image_processing'' JNull initial = (Returns False, initial)"
  using sendToQueue_without_channel [of initial env_down "''game_events''" JNull]
    sendToQueue_without_channel [of initial env_down "''image_processing''" JNull]
  by (simp add: initial_def)

subsection \<open>The listeners for the error and close signals\<close>




subsection \<open>An exception of the transport's send\<close>

text \<open>
  Claim C3, as stated, for the backend: when the channel's \<open>sendToQueue\<close> throws, the
  references would be set to \<open>null\<close> and a reconnect scheduled. The backend's \<open>catch\<close>
  does neither.
\<close>

theorem backend_catch_keeps_state:
  "channel_sendToQueue env_closed 0 0 ''image_processing'' (Buffer_from env_closed ''{}'')
     = Inl (JsError ''Channel closed'') \<and>
   rabbitChannel (snd (sendToQueue_backend env_closed ''image_processing'' JNull connected)) \<noteq> None \<and>
   rabbitConnection (snd (sendToQueue_backend env_closed ''image_processing'' JNull connected)) \<noteq> None \<and>
   timeouts (snd (sendToQueue_backend env_closed ''image_processing'' JNull connected)) = []"
  by (simp add: sendToQueue_backend_def send_try_backend_def send_on_channel_def connected_def
      env_closed_def env_up_def initial_def Let_def)

text \<open>
  Claim C3, amended: when the channel's \<open>sendToQueue\<close> throws, the producer's
  \<open>sendToQueue\<close> (whether the channel was held or obtained by the reconnect inside the
  call) sets both references to \<open>null\<close>, schedules one call of \<open>connectToRabbitMQ\<close>
  5000 ms later and returns \<open>false\<close>; the backend's \<open>sendToQueue\<close> returns \<open>false\<close> and
  changes neither the references nor the timers.
\<close>

theorem send_exception:
  assumes "st1 = (if rabbitChannel st = None then connectToRabbitMQ_producer env st else st)"
    and "rabbitChannel st1 = Some ch" and "JSON_stringify env message = Inr (Some s)"
    and "channel_sendToQueue env (length (sendCalls st1)) ch queue (Buffer_from env s) = Inl e"
  shows "(let r = sendToQueue_producer env queue message st in
            fst r = Returns False \<and> rabbitConnection (snd r) = None \<and>
            rabbitChannel (snd r) = None \<and>
            timeouts (snd r) = timeouts st1 @ [(Reconnect, 5000)]) \<and>
         (rabbitChannel st = Some ch \<longrightarrow>
            sendToQueue_backend env queue message st =
              (Returns False,
               st\<lparr>sendCalls := sendCalls st @ [(ch, queue, Buffer_from env s, True)]\<rparr>))"
proof -
  have "send_try_producer env queue message st = send_on_channel env queue message st1"
    using assms(1,2) by (simp add: send_try_producer_eq Let_def)
  then have "send_try_producer env queue message st =
     (Throws e, st1\<lparr>sendCalls := sendCalls st1 @ [(ch, queue, Buffer_from env s, True)]\<rparr>)"
    using assms(2-4) by (simp add: send_on_channel_throws)
  then have p: "sendToQueue_producer env queue message st =
     (Returns False, setTimeout Reconnect 5000 (clear_refs
        (st1\<lparr>sendCalls := sendCalls st1 @ [(ch, queue, Buffer_from env s, True)]\<rparr>)))"
    by (simp add: sendToQueue_producer_def)
  have b: "sendToQueue_backend env queue message st =
      (Returns False, st\<lparr>sendCalls := sendCalls st @ [(ch, queue, Buffer_from env s, True)]\<rparr>)"
    if "rabbitChannel st = Some ch"
    using that assms
    by (simp add: sendToQueue_backend_def send_try_backend_def send_on_channel_throws)
  show ?thesis
    using b by (simp add: p state_defs Let_def)
qed

theorem send_exception_witness:
  "rabbitChannel connected = Some 0 \<and> JSON_stringify env_closed JNull = Inr (Some ''{}'') \<and>
   channel_sendToQueue env_closed (length (sendCalls connected)) 0 ''game_events''
     (Buffer_from env_closed ''{}'') = Inl (JsError ''Channel closed'') \<and>
   fst (sendToQueue_producer env_closed ''game_events'' JNull connected) = Returns False \<and>
   rabbitChannel (snd (sendToQueue_producer env_closed ''game_events'' JNull connected)) = None \<and>
   rabbitChannel (snd (sendToQueue_backend env_closed ''game_events'' JNull connected)) = Some 0"
  using send_exception [of connected connected env_closed 0 JNull "''{}''" "''game_events''"
      "JsError ''Channel closed''"]
  by (simp add: connected_def env_closed_def env_up_def initial_def Let_def)

subsection \<open>The result of publishing\<close>

text \<open>
  Claim C4: for every queue name, message, state and transport, \<open>sendToQueue\<close> of the
  producer and of the backend returns a boolean and never throws; when it returns \<open>true\<close>,
  the last call of the channel's \<open>sendToQueue\<close> was made on the held channel with this
  queue name, the serialized message and \<open>persistent: true\<close>, and that call returned
  \<open>true\<close>.
\<close>

theorem sendToQueue_never_throws:
  "(\<exists>b. fst (sendToQueue_producer env queue message st) = Returns b) \<and>
   (\<exists>b. fst (sendToQueue_backend env queue message st) = Returns b) \<and>
   (sendToQueue_producer env queue message st = (Returns True, st') \<longrightarrow>
      (\<exists>ch s. rabbitChannel st' = Some ch \<and> JSON_stringify env message = Inr (Some s) \<and>
         sendCalls st' \<noteq> [] \<and> last (sendCalls st') = (ch, queue, Buffer_from env s, True) \<and>
         channel_sendToQueue env (length (sendCalls st') - 1) ch queue (Buffer_from env s)
           = Inr True)) \<and>
   (sendToQueue_backend env queue message st = (Returns True, st') \<longrightarrow>
      (\<exists>ch s. rabbitChannel st' = Some ch \<and> JSON_stringify env message = Inr (Some s) \<and>
         sendCalls st' \<noteq> [] \<and> last (sendCalls st') = (ch, queue, Buffer_from env s, True) \<and>
         channel_sendToQueue env (length (sendCalls st') - 1) ch queue (Buffer_from env s)
           = Inr True))"
proof (intro conjI impI)
  show "\<exists>b. fst (sendToQueue_producer env queue message st) = Returns b"
    by (auto simp: sendToQueue_producer_def split: prod.splits completion.splits)
  show "\<exists>b. fst (sendToQueue_backend env queue message st) = Returns b"
    by (auto simp: sendToQueue_backend_def split: prod.splits completion.splits)
next
  assume a: "sendToQueue_producer env queue message st = (Returns True, st')"
  define st1 where
    "st1 = (if rabbitChannel st = None then connectToRabbitMQ_producer env st else st)"
  from a have "send_try_producer env queue message st = (Returns True, st')"
    by (auto simp: sendToQueue_producer_def split: prod.splits completion.splits)
  then have "send_on_channel env queue message st1 = (Returns True, st')"
    by (auto simp: send_try_producer_eq st1_def Let_def split: if_splits)
  from send_on_channel_True [OF this]
  show "\<exists>ch s. rabbitChannel st' = Some ch \<and> JSON_stringify env message = Inr (Some s) \<and>
         sendCalls st' \<noteq> [] \<and> last (sendCalls st') = (ch, queue, Buffer_from env s, True) \<and>
         channel_sendToQueue env (length (sendCalls st') - 1) ch queue (Buffer_from env s)
           = Inr True"
    by auto
next
  assume a: "sendToQueue_backend env queue message st = (Returns True, st')"
  then have "send_try_backend env queue message st = (Returns True, st')"
    by (auto simp: sendToQueue_backend_def split: prod.splits completion.splits)
  then have "send_on_channel env queue message st = (Returns True, st')"
    by (auto simp: send_try_backend_def split: if_splits)
  from send_on_channel_True [OF this]
  show "\<exists>ch s. rabbitChannel st' = Some ch \<and> JSON_stringify env message = Inr (Some s) \<and>
         sendCalls st' \<noteq> [] \<and> last (sendCalls st') = (ch, queue, Buffer_from env s, True) \<and>
         channel_sendToQueue env (length (sendCalls st') - 1) ch queue (Buffer_from env s)
           = Inr True"
    by auto
qed

theorem sendToQueue_never_throws_witness:
  "sendToQueue_producer env_up ''game_events'' JNull connected =
     (Returns True,
      connected\<lparr>sendCalls := [(0, ''game_events'', Buffer_from env_up ''{}'', True)]\<rparr>) \<and>
   sendToQueue_backend env_up ''game_events'' JNull connected =
     (Returns True,
      connected\<lparr>sendCalls := [(0, ''game_events'', Buffer_from env_up ''{}'', True)]\<rparr>) \<and>
   (\<exists>ch s. JSON_stringify env_up JNull = Inr (Some s) \<and>
      channel_sendToQueue env_up
        (length (sendCalls
           (connected\<lparr>sendCalls := [(0, ''game_events'', Buffer_from env_up ''{}'', True)]\<rparr>)) - 1)
        ch ''game_events'' (Buffer_from env_up s) = Inr True)"
proof -
  let ?st' = "connected\<lparr>sendCalls := [(0, ''game_events'', Buffer_from env_up ''{}'', True)]\<rparr>"
  have p: "sendToQueue_producer env_up ''game_events'' JNull connected = (Returns True, ?st')"
    by (simp add: sendToQueue_producer_def send_try_producer_def send_on_channel_def
        connected_def env_up_def initial_def Let_def)
  have b: "sendToQueue_backend env_up ''game_events'' JNull connected = (Returns True, ?st')"
    by (simp add: sendToQueue_backend_def send_try_backend_def send_on_channel_def
        connected_def env_up_def initial_def Let_def)
  from sendToQueue_never_throws [of env_up "''game_events''" JNull connected ?st'] p
  have "\<exists>ch s. rabbitChannel ?st' = Some ch \<and> JSON_stringify env_up JNull = Inr (Some s) \<and>
         sendCalls ?st' \<noteq> [] \<and>
         last (sendCalls ?st') = (ch, ''game_events'', Buffer_from env_up s, True) \<and>
         channel_sendToQueue env_up (length (sendCalls ?st') - 1) ch ''game_events''
           (Buffer_from env_up s) = Inr True"
    by blast
  then have "\<exists>ch s. JSON_stringify env_up JNull = Inr (Some s) \<and>
      channel_sendToQueue env_up (length (sendCalls ?st') - 1) ch ''game_events''
        (Buffer_from env_up s) = Inr True"
    by blast
  with p b show ?thesis by blast
qed

subsection \<open>Publishing on a live channel\<close>

text \<open>
  Claim C5: when a channel reference \<open>ch\<close> is held, \<open>sendToQueue\<close> of either process
  calls the channel's \<open>sendToQueue\<close> exactly once, with the given queue name, the bytes
  of \<open>JSON.stringify(message)\<close> and \<open>persistent: true\<close> (and not at all when the message
  cannot be serialized); when that call returns \<open>false\<close> (buffer full), \<open>sendToQueue\<close>
  returns \<open>false\<close> and does nothing else: no second call, no reconnect, no timer.
\<close>

theorem send_on_live_channel:
  assumes "rabbitChannel st = Some ch"
  shows "(sendCalls (snd (sendToQueue_producer env queue message st)) =
            (case JSON_stringify env message of
               Inr (Some s) \<Rightarrow> sendCalls st @ [(ch, queue, Buffer_from env s, True)]
             | _ \<Rightarrow> sendCalls st)) \<and>
         (sendCalls (snd (sendToQueue_backend env queue message st)) =
            (case JSON_stringify env message of
               Inr (Some s) \<Rightarrow> sendCalls st @ [(ch, queue, Buffer_from env s, True)]
             | _ \<Rightarrow> sendCalls st)) \<and>
         (JSON_stringify env message = Inr (Some s) \<and>
          channel_sendToQueue env (length (sendCalls st)) ch queue (Buffer_from env s)
            = Inr False \<longrightarrow>
            sendToQueue_producer env queue message st =
              (Returns False,
               st\<lparr>sendCalls := sendCalls st @ [(ch, queue, Buffer_from env s, True)]\<rparr>) \<and>
            sendToQueue_backend env queue message st =
              (Returns False,
               st\<lparr>sendCalls := sendCalls st @ [(ch, queue, Buffer_from env s, True)]\<rparr>))"
proof (intro conjI impI)
  show "sendCalls (snd (sendToQueue_producer env queue message st)) =
            (case JSON_stringify env message of
               Inr (Some s) \<Rightarrow> sendCalls st @ [(ch, queue, Buffer_from env s, True)]
             | _ \<Rightarrow> sendCalls st)"
    using assms by (simp only: sendToQueue_producer_live send_on_channel_sendCalls)
  show "sendCalls (snd (sendToQueue_backend env queue message st)) =
            (case JSON_stringify env message of
               Inr (Some s) \<Rightarrow> sendCalls st @ [(ch, queue, Buffer_from env s, True)]
             | _ \<Rightarrow> sendCalls st)"
    using assms by (simp only: sendToQueue_backend_live send_on_channel_sendCalls)
next
  assume a: "JSON_stringify env message = Inr (Some s) \<and>
          channel_sendToQueue env (length (sendCalls st)) ch queue (Buffer_from env s)
            = Inr False"
  then have "send_on_channel env queue message st =
     (Returns False, st\<lparr>sendCalls := sendCalls st @ [(ch, queue, Buffer_from env s, True)]\<rparr>)"
    using assms by (simp add: send_on_channel_returns)
  then show "sendToQueue_producer env queue message st =
              (Returns False,
               st\<lparr>sendCalls := sendCalls st @ [(ch, queue, Buffer_from env s, True)]\<rparr>)"
    and "sendToQueue_backend env queue message st =
              (Returns False,
               st\<lparr>sendCalls := sendCalls st @ [(ch, queue, Buffer_from env s, True)]\<rparr>)"
    using assms
    by (simp_all add: sendToQueue_producer_def send_try_producer_def sendToQueue_backend_def
        send_try_backend_def)
qed

theorem send_on_live_channel_witness:
  "rabbitChannel connected = Some 0 \<and>
   JSON_stringify env_full JNull = Inr (Some ''{}'') \<and>
   channel_sendToQueue env_full (length (sendCalls connected)) 0 ''game_events''
     (Buffer_from env_full ''{}'') = Inr False \<and>
   sendCalls (snd (sendToQueue_producer env_full ''game_events'' JNull connected)) =
      [(0, ''game_events'', Buffer_from env_full ''{}'', True)] \<and>
   fst (sendToQueue_producer env_full ''game_events'' JNull connected) = Returns False \<and>
   fst (sendToQueue_backend env_full ''game_events'' JNull connected) = Returns False"
  using send_on_live_channel [of connected 0 env_full "''game_events''" JNull "''{}''"]
  by (simp add: connected_def env_full_def env_up_def initial_def)

subsection \<open>The bounded start-up connection of the backend\<close>

lemma bounded_run_done:
  "\<not> attempt \<le> retries \<Longrightarrow> bounded_run retries delay attempt st (Returns (None, None), st)"
  by (simp add: bounded_run_def)

lemma bounded_run_success:
  "attempt \<le> retries \<Longrightarrow> connects st' = Suc (connects st) \<Longrightarrow> slept st' = slept st \<Longrightarrow>
   rabbitConnection st' = Some c \<Longrightarrow> rabbitChannel st' = Some ch \<Longrightarrow>
   bounded_run retries delay attempt st (Returns (Some c, Some ch), st')"
  by (simp add: bounded_run_def)

lemma bounded_run_retry:
  assumes "attempt < retries" and "connects st' = Suc (connects st)"
    and "bounded_run retries delay (Suc attempt) (st'\<lparr>slept := slept st @ [delay]\<rparr>) r"
  shows "bounded_run retries delay attempt st r"
proof -
  let ?n = "connects (snd r)"
  from assms have n: "Suc (Suc (connects st)) \<le> ?n"
    and s: "slept (snd r) = (slept st @ [delay]) @ replicate (?n - Suc (Suc (connects st))) delay"
    by (simp_all add: bounded_run_def)
  have "replicate (?n - Suc (connects st)) delay
      = delay # replicate (?n - Suc (Suc (connects st))) delay"
    using n by (simp add: Suc_diff_le flip: replicate_Suc)
  with s have s': "slept (snd r) = slept st @ replicate (?n - Suc (connects st)) delay"
    by simp
  show ?thesis
    unfolding bounded_run_def
  proof (intro conjI)
    show "\<exists>v. fst r = Returns v" using assms(3) by (simp add: bounded_run_def)
    show "connects st \<le> ?n" using n by simp
    have "?n \<le> Suc (connects st) + (Suc retries - Suc attempt)"
      using assms(2,3) by (simp add: bounded_run_def)
    then show "?n \<le> connects st + (Suc retries - attempt)"
      using assms(1) by arith
    show "attempt \<le> retries \<longrightarrow> Suc (connects st) \<le> ?n" using n by simp
    show "slept (snd r) = slept st @ replicate (?n - Suc (connects st)) delay" by (rule s')
    show "fst r = Returns (None, None) \<and> ?n = connects st + (Suc retries - attempt) \<or>
      (\<exists>c ch. fst r = Returns (Some c, Some ch) \<and> rabbitConnection (snd r) = Some c \<and>
         rabbitChannel (snd r) = Some ch)"
      using assms(1,2,3) by (auto simp: bounded_run_def)
  qed
qed

lemma bounded_run_last:
  assumes "attempt = retries" and "connects st' = Suc (connects st)" and "slept st' = slept st"
    and "bounded_run retries delay (Suc attempt) st' r"
  shows "bounded_run retries delay attempt st r"
  using assms by (auto simp: bounded_run_def)

lemma connect_loop_backend_bounded:
  "bounded_run retries delay attempt st (connect_loop_backend env retries delay attempt st)"
proof (induction env retries delay attempt st rule: connect_loop_backend.induct)
  case (1 env retries delay attempt st)
  note unfold = connect_loop_backend.simps [of env retries delay attempt st]
  show ?case
  proof (cases "attempt \<le> retries")
    case False
    then show ?thesis by (simp add: unfold bounded_run_done)
  next
    case True
    obtain r st' where a: "attempt_backend env st = (r, st')" by (cases "attempt_backend env st")
    have c: "connects st' = Suc (connects st)" and s: "slept st' = slept st"
      using attempt_backend_connects [of env st] attempt_backend_slept [of env st] a by simp_all
    show ?thesis
    proof (cases r)
      case (Returns v)
      with a attempt_backend_Returns [of env st v st'] obtain c' ch where
        "v = (Some c', Some ch)" "rabbitConnection st' = Some c'" "rabbitChannel st' = Some ch"
        by blast
      with a Returns True c s show ?thesis
        by (simp add: unfold bounded_run_success)
    next
      case (Throws e)
      let ?st2 = "if attempt < retries then st'\<lparr>slept := slept st' @ [delay]\<rparr> else st'"
      have ih: "bounded_run retries delay (Suc attempt) ?st2
                 (connect_loop_backend env retries delay (Suc attempt) ?st2)"
        using "1.IH" [OF True a [symmetric] Throws] by simp
      have eq: "connect_loop_backend env retries delay attempt st =
                 connect_loop_backend env retries delay (Suc attempt) ?st2"
        using True a Throws by (simp add: unfold)
      show ?thesis
      proof (cases "attempt < retries")
        case True
        with ih s have "bounded_run retries delay (Suc attempt)
                 (st'\<lparr>slept := slept st @ [delay]\<rparr>)
                 (connect_loop_backend env retries delay (Suc attempt) ?st2)" by simp
        from bounded_run_retry [OF True c this] show ?thesis by (simp only: eq)
      next
        case False
        with \<open>attempt \<le> retries\<close> have l: "attempt = retries" by simp
        from False ih have "bounded_run retries delay (Suc attempt) st'
                 (connect_loop_backend env retries delay (Suc attempt) ?st2)" by simp
        from bounded_run_last [OF l c s this] show ?thesis by (simp only: eq)
      qed
    qed
  qed
qed

lemma connect_loop_backend_down:
  assumes "\<forall>k < Suc retries - attempt. isl (amqp_connect env (connects st + k))"
  shows "connect_loop_backend env retries delay attempt st =
     (Returns (None, None),
      st\<lparr>connects := connects st + (Suc retries - attempt),
         slept := slept st @ replicate (retries - attempt) delay\<rparr>)"
  using assms
proof (induction env retries delay attempt st rule: connect_loop_backend.induct)
  case (1 env retries delay attempt st)
  note unfold = connect_loop_backend.simps [of env retries delay attempt st]
  show ?case
  proof (cases "attempt \<le> retries")
    case False
    then show ?thesis by (simp add: unfold)
  next
    case True
    then have "0 < Suc retries - attempt" by arith
    with "1.prems" have "isl (amqp_connect env (connects st + 0))" by blast
    then obtain e where e: "amqp_connect env (connects st) = Inl e"
      by (cases "amqp_connect env (connects st)") auto
    let ?st' = "st\<lparr>connects := Suc (connects st)\<rparr>"
    let ?st2 = "if attempt < retries then ?st'\<lparr>slept := slept ?st' @ [delay]\<rparr> else ?st'"
    have a: "attempt_backend env st = (Throws e, ?st')"
      using e by (rule attempt_backend_down)
    have "\<forall>k < Suc retries - Suc attempt. isl (amqp_connect env (connects ?st2 + k))"
    proof (intro allI impI)
      fix k assume "k < Suc retries - Suc attempt"
      then have "Suc k < Suc retries - attempt" by arith
      with "1.prems" have "isl (amqp_connect env (connects st + Suc k))" by blast
      then show "isl (amqp_connect env (connects ?st2 + k))" by simp
    qed
    from "1.IH" [OF True a [symmetric] refl this]
    have ih: "connect_loop_backend env retries delay (Suc attempt) ?st2 =
        (Returns (None, None),
         ?st2\<lparr>connects := connects ?st2 + (Suc retries - Suc attempt),
              slept := slept ?st2 @ replicate (retries - Suc attempt) delay\<rparr>)" .
    have eq: "connect_loop_backend env retries delay attempt st =
                 connect_loop_backend env retries delay (Suc attempt) ?st2"
      using True a by (simp add: unfold)
    show ?thesis
    proof (cases "attempt < retries")
      case True
      then have "replicate (retries - attempt) delay
          = delay # replicate (retries - Suc attempt) delay"
        by (simp add: Suc_diff_Suc flip: replicate_Suc)
      with True show ?thesis unfolding eq ih by (simp add: Suc_diff_le)
    next
      case False
      with True have "attempt = retries" by simp
      then show ?thesis unfolding eq ih by simp
    qed
  qed
qed

text \<open>
  Claim C7: a call of the backend's \<open>connectToRabbitMQ\<close> with its default arguments
  returns without throwing after at least one and at most five calls of \<open>amqp.connect\<close>,
  having awaited a 5000 ms timer after every failed attempt but the last of the call; it
  returns either the pair of \<open>null\<close>s, and then all five attempts were made, or the new
  connection and channel. When the broker refuses all five connections the result is the
  pair of \<open>null\<close>s after four delays, and \<open>initializeApp\<close> (the database being reachable)
  goes on to listen with both references \<open>null\<close> and does not exit.
\<close>

theorem connectToRabbitMQ_backend_bounded:
  "(let r = connectToRabbitMQ_backend env 5 5000 st in
      (\<exists>v. fst r = Returns v) \<and>
      Suc (connects st) \<le> connects (snd r) \<and> connects (snd r) \<le> connects st + 5 \<and>
      slept (snd r) = slept st @ replicate (connects (snd r) - Suc (connects st)) 5000 \<and>
      (fst r = Returns (None, None) \<and> connects (snd r) = connects st + 5 \<or>
       (\<exists>c ch. fst r = Returns (Some c, Some ch) \<and> rabbitConnection (snd r) = Some c \<and>
          rabbitChannel (snd r) = Some ch))) \<and>
   ((\<forall>k<5. isl (amqp_connect env (connects st + k))) \<longrightarrow>
      connectToRabbitMQ_backend env 5 5000 st =
        (Returns (None, None),
         st\<lparr>connects := connects st + 5, slept := slept st @ [5000, 5000, 5000, 5000]\<rparr>)) \<and>
   ((\<forall>k<5. isl (amqp_connect env (connects (rabbit sv) + k))) \<and>
    getConnection (db_attempts sv) = None \<longrightarrow>
      (let sv' = initializeApp env getConnection sv in
         listening sv' \<and> exit_code sv' = exit_code sv \<and>
         rabbitConnection (rabbit sv') = None \<and> rabbitChannel (rabbit sv') = None))"
proof (intro conjI impI)
  show "let r = connectToRabbitMQ_backend env 5 5000 st in
      (\<exists>v. fst r = Returns v) \<and>
      Suc (connects st) \<le> connects (snd r) \<and> connects (snd r) \<le> connects st + 5 \<and>
      slept (snd r) = slept st @ replicate (connects (snd r) - Suc (connects st)) 5000 \<and>
      (fst r = Returns (None, None) \<and> connects (snd r) = connects st + 5 \<or>
       (\<exists>c ch. fst r = Returns (Some c, Some ch) \<and> rabbitConnection (snd r) = Some c \<and>
          rabbitChannel (snd r) = Some ch))"
    using connect_loop_backend_bounded [of 5 5000 1 st env]
    by (simp add: connectToRabbitMQ_backend_def bounded_run_def Let_def)
next
  assume "\<forall>k<5. isl (amqp_connect env (connects st + k))"
  then have "\<forall>k < Suc 5 - 1. isl (amqp_connect env (connects st + k))" by simp
  from connect_loop_backend_down [OF this, of 5000]
  show "connectToRabbitMQ_backend env 5 5000 st =
        (Returns (None, None),
         st\<lparr>connects := connects st + 5, slept := slept st @ [5000, 5000, 5000, 5000]\<rparr>)"
    by (simp add: connectToRabbitMQ_backend_def numeral_eq_Suc)
next
  assume a: "(\<forall>k<5. isl (amqp_connect env (connects (rabbit sv) + k))) \<and>
    getConnection (db_attempts sv) = None"
  then have "\<forall>k < Suc 5 - 1. isl (amqp_connect env (connects (rabbit sv) + k))" by simp
  from connect_loop_backend_down [OF this, of 5000]
  have r: "connectToRabbitMQ_backend env 5 5000 (rabbit sv) =
        (Returns (None, None),
         (rabbit sv)\<lparr>connects := connects (rabbit sv) + 5,
                     slept := slept (rabbit sv) @ replicate 4 5000\<rparr>)"
    by (simp add: connectToRabbitMQ_backend_def)
  have d: "connectToDatabase getConnection 5 5000 sv =
      (Returns (), sv\<lparr>pool := True, db_attempts := Suc (db_attempts sv)\<rparr>)"
    unfolding connectToDatabase_def using a by (subst connect_loop_database.simps) simp
  show "let sv' = initializeApp env getConnection sv in
         listening sv' \<and> exit_code sv' = exit_code sv \<and>
         rabbitConnection (rabbit sv') = None \<and> rabbitChannel (rabbit sv') = None"
    by (simp add: initializeApp_def d r)
qed

theorem connectToRabbitMQ_backend_bounded_witness:
  "isl (amqp_connect env_down 0) \<and> isl (amqp_connect env_down 4) \<and>
   connectToRabbitMQ_backend env_down 5 5000 initial =
     (Returns (None, None), initial\<lparr>connects := 5, slept := [5000, 5000, 5000, 5000]\<rparr>) \<and>
   (\<lambda>k. None :: jserror option) (db_attempts server_boot) = None \<and>
   listening (initializeApp env_down (\<lambda>k. None) server_boot) \<and>
   exit_code (initializeApp env_down (\<lambda>k. None) server_boot) = None \<and>
   rabbitChannel (rabbit (initializeApp env_down (\<lambda>k. None) server_boot)) = None"
  using connectToRabbitMQ_backend_bounded [of env_down initial server_boot "\<lambda>k. None"]
  by (simp add: env_down_def initial_def server_boot_def Let_def)

section \<open>Properties of the routes\<close>

subsection \<open>Creating a game\<close>

lemma insert_game_id: "fst (insert_game b db) = auto_increment db"
  by (simp add: insert_game_def Let_def)

lemma post_games_created:
  assumes "pool sv" and "\<not> required_missing b"
    and "select_id (platforms (database sv)) (platformId b) \<noteq> []"
    and "select_id (genres (database sv)) (genreId b) \<noteq> []"
    and "qfail 0 = None" and "qfail 1 = None" and "qfail 2 = None"
  shows "fst (post_games env qfail b sv) =
           (201, GameReply (auto_increment (database sv)) b ''pending'' (Some ''pending'')) \<and>
         database (snd (post_games env qfail b sv)) = snd (insert_game b (database sv))"
proof -
  obtain n db' where i: "insert_game b (database sv) = (n, db')"
    by (cases "insert_game b (database sv)")
  with insert_game_id [of b "database sv"] have n: "n = auto_increment (database sv)" by simp
  from assms i n show ?thesis
    by (simp add: post_games_def post_games_try_def Let_def)
qed

lemma post_games_cases:
  obtains (failed) code msg where
      "\<forall>env st. post_games env qfail b (sv\<lparr>rabbit := st\<rparr>)
         = ((code, Message msg), sv\<lparr>rabbit := st\<rparr>)"
    | (created)
      "pool sv" "\<not> required_missing b"
      "select_id (platforms (database sv)) (platformId b) \<noteq> []"
      "select_id (genres (database sv)) (genreId b) \<noteq> []"
      "qfail 0 = None" "qfail 1 = None" "qfail 2 = None"
      "\<forall>env st. fst (post_games env qfail b (sv\<lparr>rabbit := st\<rparr>)) =
           (201, GameReply (auto_increment (database sv)) b ''pending'' (Some ''pending'')) \<and>
         database (snd (post_games env qfail b (sv\<lparr>rabbit := st\<rparr>)))
           = snd (insert_game b (database sv))"
proof -
  let ?P = "select_id (platforms (database sv)) (platformId b)"
  let ?G = "select_id (genres (database sv)) (genreId b)"
  note defs = post_games_def post_games_try_def Let_def
  consider
      (1) "\<not> pool sv"
    | (2) "pool sv" "required_missing b"
    | (3) e where "pool sv" "\<not> required_missing b" "qfail 0 = Some e"
    | (4) "pool sv" "\<not> required_missing b" "qfail 0 = None" "?P = []"
    | (5) e where "pool sv" "\<not> required_missing b" "qfail 0 = None" "?P \<noteq> []"
        "qfail 1 = Some e"
    | (6) "pool sv" "\<not> required_missing b" "qfail 0 = None" "?P \<noteq> []" "qfail 1 = None"
        "?G = []"
    | (7) e where "pool sv" "\<not> required_missing b" "qfail 0 = None" "?P \<noteq> []" "qfail 1 = None"
        "?G \<noteq> []" "qfail 2 = Some e"
    | (8) "pool sv" "\<not> required_missing b" "qfail 0 = None" "?P \<noteq> []" "qfail 1 = None"
        "?G \<noteq> []" "qfail 2 = None"
    by (cases "qfail 0"; cases "qfail 1"; cases "qfail 2") blast+
  then show thesis
  proof cases
    case 1 then show ?thesis by (intro failed) (simp add: defs)
  next
    case 2 then show ?thesis by (intro failed) (simp add: defs)
  next
    case 3 then show ?thesis by (intro failed) (simp add: defs)
  next
    case 4 then show ?thesis by (intro failed) (simp add: defs)
  next
    case 5 then show ?thesis by (intro failed) (simp add: defs)
  next
    case 6 then show ?thesis by (intro failed) (simp add: defs)
  next
    case 7 then show ?thesis by (intro failed) (simp add: defs)
  next
    case 8
    then have "fst (post_games env qfail b (sv\<lparr>rabbit := st\<rparr>)) =
           (201, GameReply (auto_increment (database sv)) b ''pending'' (Some ''pending'')) \<and>
         database (snd (post_games env qfail b (sv\<lparr>rabbit := st\<rparr>)))
           = snd (insert_game b (database sv))" for env st
      using post_games_created [of "sv\<lparr>rabbit := st\<rparr>" b qfail env] by simp
    with 8 show ?thesis by (intro created) simp_all
  qed
qed

text \<open>
  Claim C8: the reply of \<open>POST /api/games\<close> and the database it leaves are the same
  whatever the broker state and the transport are (no channel, a channel whose send
  throws or reports a full buffer, or a working one); and when the request is valid and
  no query fails, the reply is 201 with the new id and \<open>processingStatus\<close> "pending", and
  the new row is in the table with \<open>processing_status\<close> \<open>'pending'\<close>.
\<close>

theorem post_games_independent_of_broker:
  "fst (post_games env qfail b (sv\<lparr>rabbit := st\<rparr>)) =
     fst (post_games env' qfail b (sv\<lparr>rabbit := st'\<rparr>)) \<and>
   database (snd (post_games env qfail b (sv\<lparr>rabbit := st\<rparr>))) =
     database (snd (post_games env' qfail b (sv\<lparr>rabbit := st'\<rparr>))) \<and>
   (pool sv \<and> \<not> required_missing b \<and>
    select_id (platforms (database sv)) (platformId b) \<noteq> [] \<and>
    select_id (genres (database sv)) (genreId b) \<noteq> [] \<and>
    qfail 0 = None \<and> qfail 1 = None \<and> qfail 2 = None \<longrightarrow>
      (let r = post_games env qfail b sv in
         fst r = (201, GameReply (auto_increment (database sv)) b ''pending'' (Some ''pending'')) \<and>
         (\<exists>row. games (database (snd r)) = games (database sv) @ [row] \<and>
            id_col row = auto_increment (database sv) \<and>
            title_col row = sql_param (title b) \<and>
            processing_status row = Some ''pending'')))"
proof (intro conjI impI)
  show "fst (post_games env qfail b (sv\<lparr>rabbit := st\<rparr>)) =
     fst (post_games env' qfail b (sv\<lparr>rabbit := st'\<rparr>))"
    by (cases rule: post_games_cases [of qfail b sv]) simp_all
  show "database (snd (post_games env qfail b (sv\<lparr>rabbit := st\<rparr>))) =
     database (snd (post_games env' qfail b (sv\<lparr>rabbit := st'\<rparr>)))"
    by (cases rule: post_games_cases [of qfail b sv]) simp_all
next
  assume a: "pool sv \<and> \<not> required_missing b \<and>
    select_id (platforms (database sv)) (platformId b) \<noteq> [] \<and>
    select_id (genres (database sv)) (genreId b) \<noteq> [] \<and>
    qfail 0 = None \<and> qfail 1 = None \<and> qfail 2 = None"
  then have "fst (post_games env qfail b sv) =
           (201, GameReply (auto_increment (database sv)) b ''pending'' (Some ''pending'')) \<and>
         database (snd (post_games env qfail b sv)) = snd (insert_game b (database sv))"
    by (intro post_games_created) simp_all
  then show "let r = post_games env qfail b sv in
         fst r = (201, GameReply (auto_increment (database sv)) b ''pending'' (Some ''pending'')) \<and>
         (\<exists>row. games (database (snd r)) = games (database sv) @ [row] \<and>
            id_col row = auto_increment (database sv) \<and>
            title_col row = sql_param (title b) \<and>
            processing_status row = Some ''pending'')"
    by (simp add: Let_def insert_game_def)
qed

theorem post_games_independent_of_broker_witness:
  "pool server0 \<and> \<not> required_missing request0 \<and>
   select_id (platforms (database server0)) (platformId request0) \<noteq> [] \<and>
   select_id (genres (database server0)) (genreId request0) \<noteq> [] \<and>
   fst (post_games env_down (\<lambda>k. None) request0 server0) =
     (201, GameReply 2 request0 ''pending'' (Some ''pending''))"
  using post_games_independent_of_broker [where env = env_down and qfail = "\<lambda>k. None"
      and b = request0 and sv = server0]
  by (simp add: server0_def request0_def db0_def required_missing_def truthy_str_def
      truthy_num_def select_id_def Let_def)

subsection \<open>Updating a game\<close>

lemma update_game_filter:
  assumes "filter (\<lambda>g. id_col g = i) (games db) = [g]"
  shows "filter (\<lambda>g. id_col g = i) (games (update_game i b old db)) =
     [g\<lparr>title_col := sql_param (title b), platform_id := sql_param (platformId b),
              genre_id := sql_param (genreId b), developer_col := sql_param (developer b),
              release_year := sql_param (releaseYear b),
              year_category := sql_param (yearCategory b),
              description_col := sql_param (description b), image_url := or_null (imageUrl b),
              processing_status :=
                (if sql_ne (collation_eq db) (sql_param (imageUrl b)) old = Some True
                 then Some ''pending'' else processing_status g)\<rparr>]"
proof -
  let ?f = "\<lambda>g. if id_col g = i then
            g\<lparr>title_col := sql_param (title b), platform_id := sql_param (platformId b),
              genre_id := sql_param (genreId b), developer_col := sql_param (developer b),
              release_year := sql_param (releaseYear b),
              year_category := sql_param (yearCategory b),
              description_col := sql_param (description b), image_url := or_null (imageUrl b),
              processing_status :=
                (if sql_ne (collation_eq db) (sql_param (imageUrl b)) old = Some True
                 then Some ''pending'' else processing_status g)\<rparr>
          else g"
  have "filter (\<lambda>g. id_col g = i) (map ?f xs) = map ?f (filter (\<lambda>g. id_col g = i) xs)"
    for xs :: "game list"
    by (induction xs) auto
  then have "filter (\<lambda>g. id_col g = i) (games (update_game i b old db)) = map ?f [g]"
    using assms by (simp add: update_game_def)
  moreover have "g \<in> set (filter (\<lambda>g. id_col g = i) (games db))"
    by (simp only: assms list.set_intros)
  then have "id_col g = i" by simp
  ultimately show ?thesis by simp
qed

lemma sql_ne_True:
  "sql_ne ceq (sql_param v) old = Some True \<Longrightarrow> \<forall>s. ceq s s \<Longrightarrow> strict_ne v old"
  by (auto simp: sql_ne_def sql_param_def strict_ne_def split: js.splits option.splits)

lemma put_games_cases:
  assumes f: "filter (\<lambda>g. id_col g = i) (games (database sv)) = g # rest"
  obtains (failed) code msg where
      "put_games env qfail i b sv = ((code, Message msg), sv)" "code \<noteq> 200"
    | (updated)
      "put_games env qfail i b sv =
        ((200, GameReply i b
            (if strict_ne (imageUrl b) (image_url g) then ''pending'' else ''completed'') None),
         sv\<lparr>database := update_game i b (image_url g) (database sv),
            rabbit := (if strict_ne (imageUrl b) (image_url g) \<and> rabbitChannel (rabbit sv) \<noteq> None
                       then snd (sendToQueue_backend env ''image_processing''
                                   (image_message i b) (rabbit sv))
                       else rabbit sv)\<rparr>)"
proof -
  let ?P = "select_id (platforms (database sv)) (platformId b)"
  let ?G = "select_id (genres (database sv)) (genreId b)"
  note defs = put_games_def put_games_try_def Let_def
  consider
      (1) "\<not> pool sv"
    | (2) "pool sv" "required_missing b"
    | (3) e where "pool sv" "\<not> required_missing b" "qfail 0 = Some e"
    | (4) e where "pool sv" "\<not> required_missing b" "qfail 0 = None" "qfail 1 = Some e"
    | (5) "pool sv" "\<not> required_missing b" "qfail 0 = None" "qfail 1 = None" "?P = []"
    | (6) e where "pool sv" "\<not> required_missing b" "qfail 0 = None" "qfail 1 = None" "?P \<noteq> []"
        "qfail 2 = Some e"
    | (7) "pool sv" "\<not> required_missing b" "qfail 0 = None" "qfail 1 = None" "?P \<noteq> []"
        "qfail 2 = None" "?G = []"
    | (8) e where "pool sv" "\<not> required_missing b" "qfail 0 = None" "qfail 1 = None" "?P \<noteq> []"
        "qfail 2 = None" "?G \<noteq> []" "qfail 3 = Some e"
    | (9) "pool sv" "\<not> required_missing b" "qfail 0 = None" "qfail 1 = None" "?P \<noteq> []"
        "qfail 2 = None" "?G \<noteq> []" "qfail 3 = None"
    by (cases "qfail 0"; cases "qfail 1"; cases "qfail 2"; cases "qfail 3") blast+
  then show thesis
  proof cases
    case 1 then show ?thesis by (intro failed) (simp add: defs)+
  next
    case 2 then show ?thesis by (intro failed) (simp add: defs)+
  next
    case 3 then show ?thesis by (intro failed) (simp add: defs)+
  next
    case 4 with f show ?thesis by (intro failed) (simp add: defs)+
  next
    case 5 with f show ?thesis by (intro failed) (simp add: defs)+
  next
    case 6 with f show ?thesis by (intro failed) (simp add: defs)+
  next
    case 7 with f show ?thesis by (intro failed) (simp add: defs)+
  next
    case 8 with f show ?thesis by (intro failed) (simp add: defs)+
  next
    case 9 with f show ?thesis by (intro updated) (auto simp add: defs)
  qed
qed

text \<open>
  What the route's two tests do guarantee, in the code's own terms: \<open>strict_ne\<close> is its
  JavaScript test \<open>imageUrl !== oldImageUrl\<close> on the submitted value as it is, and the
  status is reset by the SQL test. A call of the channel's \<open>sendToQueue\<close> or a change of
  the stored \<open>processing_status\<close> implies that \<open>strict_ne\<close> holds, and a successful
  update writes the other fields. The collation's equality is taken to be reflexive.
\<close>

lemma put_games_strict_gate:
  assumes "\<forall>s. collation_eq (database sv) s s"
    and "filter (\<lambda>g. id_col g = i) (games (database sv)) = [g]"
  shows "let r = put_games env qfail i b sv; sv' = snd r in
     \<exists>g'. filter (\<lambda>g. id_col g = i) (games (database sv')) = [g'] \<and>
       (sendCalls (rabbit sv') \<noteq> sendCalls (rabbit sv) \<longrightarrow>
          strict_ne (imageUrl b) (image_url g)) \<and>
       (processing_status g' \<noteq> processing_status g \<longrightarrow>
          strict_ne (imageUrl b) (image_url g) \<and> processing_status g' = Some ''pending'') \<and>
       (\<not> strict_ne (imageUrl b) (image_url g) \<longrightarrow>
          processing_status g' = processing_status g \<and>
          sendCalls (rabbit sv') = sendCalls (rabbit sv)) \<and>
       (fst (fst r) = 200 \<longrightarrow>
          title_col g' = sql_param (title b) \<and> platform_id g' = sql_param (platformId b) \<and>
          genre_id g' = sql_param (genreId b) \<and> developer_col g' = sql_param (developer b) \<and>
          release_year g' = sql_param (releaseYear b) \<and>
          year_category g' = sql_param (yearCategory b) \<and>
          description_col g' = sql_param (description b) \<and>
          image_url g' = or_null (imageUrl b) \<and> metadata_status g' = metadata_status g) \<and>
       (fst (fst r) \<noteq> 200 \<longrightarrow> snd r = sv)"
proof (rule put_games_cases [OF assms(2), of env qfail b])
  fix code msg
  assume "put_games env qfail i b sv = ((code, Message msg), sv)" and "code \<noteq> 200"
  with assms(2) show ?thesis by (simp add: Let_def)
next
  assume updated: "put_games env qfail i b sv =
        ((200, GameReply i b
            (if strict_ne (imageUrl b) (image_url g) then ''pending'' else ''completed'') None),
         sv\<lparr>database := update_game i b (image_url g) (database sv),
            rabbit := (if strict_ne (imageUrl b) (image_url g) \<and> rabbitChannel (rabbit sv) \<noteq> None
                       then snd (sendToQueue_backend env ''image_processing''
                                   (image_message i b) (rabbit sv))
                       else rabbit sv)\<rparr>)"
  let ?g' = "g\<lparr>title_col := sql_param (title b), platform_id := sql_param (platformId b),
              genre_id := sql_param (genreId b), developer_col := sql_param (developer b),
              release_year := sql_param (releaseYear b),
              year_category := sql_param (yearCategory b),
              description_col := sql_param (description b), image_url := or_null (imageUrl b),
              processing_status :=
                (if sql_ne (collation_eq (database sv)) (sql_param (imageUrl b)) (image_url g)
                      = Some True
                 then Some ''pending'' else processing_status g)\<rparr>"
  let ?sv' = "snd (put_games env qfail i b sv)"
  have db: "database ?sv' = update_game i b (image_url g) (database sv)"
    by (simp add: updated)
  have f: "filter (\<lambda>g. id_col g = i) (games (database ?sv')) = [?g']"
    unfolding db by (rule update_game_filter [OF assms(2)])
  have st: "processing_status ?g' \<noteq> processing_status g \<longrightarrow>
          strict_ne (imageUrl b) (image_url g) \<and> processing_status ?g' = Some ''pending''"
    using sql_ne_True [of "collation_eq (database sv)" "imageUrl b" "image_url g"] assms(1)
    by simp
  have calls: "\<not> strict_ne (imageUrl b) (image_url g) \<longrightarrow>
      sendCalls (rabbit ?sv') = sendCalls (rabbit sv)"
    by (simp add: updated)
  have code: "fst (fst (put_games env qfail i b sv)) = 200"
    by (simp add: updated)
  show ?thesis
    unfolding Let_def
  proof (intro exI [of _ ?g'] conjI)
    show "filter (\<lambda>g. id_col g = i) (games (database ?sv')) = [?g']" by (rule f)
    show "sendCalls (rabbit ?sv') \<noteq> sendCalls (rabbit sv) \<longrightarrow>
          strict_ne (imageUrl b) (image_url g)" using calls by blast
    show "processing_status ?g' \<noteq> processing_status g \<longrightarrow>
          strict_ne (imageUrl b) (image_url g) \<and> processing_status ?g' = Some ''pending''"
      by (rule st)
    show "\<not> strict_ne (imageUrl b) (image_url g) \<longrightarrow>
          processing_status ?g' = processing_status g \<and>
          sendCalls (rabbit ?sv') = sendCalls (rabbit sv)"
      using st calls by blast
    show "fst (fst (put_games env qfail i b sv)) = 200 \<longrightarrow>
          title_col ?g' = sql_param (title b) \<and> platform_id ?g' = sql_param (platformId b) \<and>
          genre_id ?g' = sql_param (genreId b) \<and> developer_col ?g' = sql_param (developer b) \<and>
          release_year ?g' = sql_param (releaseYear b) \<and>
          year_category ?g' = sql_param (yearCategory b) \<and>
          description_col ?g' = sql_param (description b) \<and>
          image_url ?g' = or_null (imageUrl b) \<and> metadata_status ?g' = metadata_status g"
      by simp
    show "fst (fst (put_games env qfail i b sv)) \<noteq> 200 \<longrightarrow> ?sv' = sv"
      using code by simp
  qed
qed

text \<open>
  Neither test is "the image URL changed". When the stored \<open>image_url\<close> is \<open>NULL\<close>, SQL's
  \<open>!=\<close> is \<open>NULL\<close>: giving such a game its first image URL enqueues the message and replies
  "pending" but leaves the stored \<open>processing_status\<close> as it was.
\<close>

lemma put_games_first_image_url:
  "fst (put_games env_up (\<lambda>k. None) 1 (request0\<lparr>imageUrl := Val ''http://x/a.png''\<rparr>) server1) =
     (200, GameReply 1 (request0\<lparr>imageUrl := Val ''http://x/a.png''\<rparr>) ''pending'' None) \<and>
   map processing_status
     (games (database (snd (put_games env_up (\<lambda>k. None) 1
        (request0\<lparr>imageUrl := Val ''http://x/a.png''\<rparr>) server1)))) = [Some ''completed''] \<and>
   length (sendCalls (rabbit (snd (put_games env_up (\<lambda>k. None) 1
        (request0\<lparr>imageUrl := Val ''http://x/a.png''\<rparr>) server1)))) = 1"
  by (simp add: put_games_def put_games_try_def Let_def server1_def server0_def db0_def
      request0_def required_missing_def truthy_str_def truthy_num_def select_id_def
      strict_ne_def update_game_def sql_ne_def sql_param_def connected_def initial_def
      sendToQueue_backend_def send_try_backend_def send_on_channel_def env_up_def)

text \<open>
  Claim C9 says that an update with an unchanged image URL leaves the stored
  \<open>processing_status\<close> and the \<open>image_processing\<close> queue untouched. At this input the code
  does otherwise: game 1 has no image (\<open>image_url\<close> is \<open>NULL\<close>), the body has
  \<open>imageUrl: ""\<close>, a channel is held. The route stores \<open>imageUrl || null\<close>, so the image
  URL is \<open>NULL\<close> before and after; but \<open>"" !== null\<close>, so it calls \<open>sendToQueue\<close> for the
  queue \<open>image_processing\<close> and replies "pending", while the stored status stays
  \<open>'completed'\<close>.
\<close>

theorem put_games_blank_image_url:
  "map image_url (games (database server1)) = [None] \<and>
   or_null (imageUrl request_blank_image) = None \<and>
   rabbitChannel (rabbit server1) = Some 0 \<and> sendCalls (rabbit server1) = [] \<and>
   fst (put_games env_up (\<lambda>k. None) 1 request_blank_image server1) =
     (200, GameReply 1 request_blank_image ''pending'' None) \<and>
   map image_url
     (games (database (snd (put_games env_up (\<lambda>k. None) 1 request_blank_image server1))))
     = [None] \<and>
   map processing_status
     (games (database (snd (put_games env_up (\<lambda>k. None) 1 request_blank_image server1))))
     = [Some ''completed''] \<and>
   map (\<lambda>(ch, queue, content, persistent). queue)
     (sendCalls (rabbit (snd (put_games env_up (\<lambda>k. None) 1 request_blank_image server1))))
     = [''image_processing'']"
  by (simp add: put_games_def put_games_try_def Let_def server1_def server0_def db0_def
      request_blank_image_def request0_def required_missing_def truthy_str_def truthy_num_def
      select_id_def strict_ne_def update_game_def sql_ne_def sql_param_def or_null_def
      connected_def initial_def sendToQueue_backend_def send_try_backend_def
      send_on_channel_def env_up_def)

section \<open>The producer's two references\<close>

subsection \<open>The pieces and the whole\<close>

text \<open>
  Run one after the other with the outcomes the transport gives, the pieces of
  \<open>connectToRabbitMQ\<close> make up the function as it is used in the sections above, and
  \<open>sendToQueue\<close> without a channel is that function followed by the rest of \<open>sendToQueue\<close>.
\<close>

lemmas loop_defs = producer_start_def connect_start_def catch_connect_def resume_connect_def
  resume_channel_def resume_assert_def continue_def emit_producer_def on_signal_producer_def
  initial_def state_defs

lemma connectToRabbitMQ_producer_steps:
  "connectToRabbitMQ_producer env st =
     (case amqp_connect env (connects st) of
        Inl e \<Rightarrow> snd (resume_connect (Inl e) (connect_start st))
      | Inr c \<Rightarrow>
          (case createChannel env c of
             Inl e \<Rightarrow> snd (resume_channel (Inl e) (snd (resume_connect (Inr c) (connect_start st))))
           | Inr ch \<Rightarrow>
               snd (resume_assert (assertQueue env ch ''game_events'')
                 (snd (resume_channel (Inr ch)
                    (snd (resume_connect (Inr c) (connect_start st))))))))"
  by (simp add: connectToRabbitMQ_producer_def connect_try_producer_def loop_defs Let_def
      split: sum.splits option.splits)

lemma sendToQueue_producer_steps:
  "rabbitChannel st = None \<Longrightarrow>
   sendToQueue_producer env q m st = resume_sendToQueue env q m (connectToRabbitMQ_producer env st)"
  by (simp add: sendToQueue_producer_def send_try_producer_def resume_sendToQueue_def Let_def)

lemma connectToRabbitMQ_producer_together:
  "(rabbitConnection (connectToRabbitMQ_producer env st) = None) =
   (rabbitChannel (connectToRabbitMQ_producer env st) = None)"
  by (simp add: connectToRabbitMQ_producer_def connect_try_producer_def state_defs Let_def
      split: sum.splits option.splits)

lemma sendToQueue_producer_catch:
  assumes "fst (send_try_producer env q m st) = Throws e"
  shows "rabbitConnection (snd (sendToQueue_producer env q m st)) = None \<and>
         rabbitChannel (snd (sendToQueue_producer env q m st)) = None"
proof -
  obtain st' where "send_try_producer env q m st = (Throws e, st')"
    using assms by (cases "send_try_producer env q m st") simp
  then show ?thesis by (simp add: sendToQueue_producer_def state_defs)
qed

subsection \<open>What every step preserves\<close>

lemma run_reachable:
  "reachable_producer cfg \<Longrightarrow> run evs cfg = Some cfg' \<Longrightarrow> reachable_producer cfg'"
proof (induction evs arbitrary: cfg)
  case Nil
  then show ?case by simp
next
  case (Cons ev evs)
  then obtain c where s: "step ev cfg = Some c" and r: "run evs c = Some cfg'"
    by (auto split: option.splits)
  from Cons.prems(1) s have "reachable_producer c" by (rule reachable_producer.step)
  from Cons.IH [OF this r] show ?case .
qed

lemma catch_connect_refs:
  "rabbitChannel (catch_connect st) = None \<and> rabbitConnection (catch_connect st) = None"
  by (simp add: catch_connect_def state_defs)

lemma resume_connect_inv:
  "rabbitChannel (snd (resume_connect r st)) \<noteq> None \<longrightarrow> rabbitConnection (snd (resume_connect r st)) \<noteq> None"
  by (simp add: resume_connect_def catch_connect_def state_defs split: sum.splits)

lemma resume_channel_inv:
  "(rabbitChannel (snd (resume_channel r st)) = None \<and> rabbitConnection (snd (resume_channel r st)) = None)
   \<or> fst (resume_channel r st) = Some AtAssert"
  by (simp add: resume_channel_def catch_connect_def state_defs split: sum.splits)

lemma resume_assert_inv:
  "rabbitChannel (snd (resume_assert r st)) \<noteq> None \<longrightarrow> rabbitConnection (snd (resume_assert r st)) \<noteq> None"
  by (auto simp add: resume_assert_def catch_connect_def state_defs split: option.splits)

lemma send_on_channel_refs:
  "rabbitChannel (snd (send_on_channel env q m st)) = rabbitChannel st \<and>
   rabbitConnection (snd (send_on_channel env q m st)) = rabbitConnection st"
  by (simp add: send_on_channel_def Let_def split: option.splits sum.splits)

lemma fold_on_signal_refs:
  "fold (\<lambda>l s. on_signal_producer s) ls st = st \<or>
   (rabbitChannel (fold (\<lambda>l s. on_signal_producer s) ls st) = None \<and>
    rabbitConnection (fold (\<lambda>l s. on_signal_producer s) ls st) = None)"
proof (induction ls arbitrary: st)
  case Nil
  show ?case by simp
next
  case (Cons l ls)
  from Cons [of "on_signal_producer st"] show ?case
    by (auto simp: on_signal_producer_def state_defs)
qed

lemma send_live_refs:
  assumes "rabbitChannel st \<noteq> None"
  shows "(rabbitChannel (snd (sendToQueue_producer env q m st)) = rabbitChannel st \<and>
          rabbitConnection (snd (sendToQueue_producer env q m st)) = rabbitConnection st) \<or>
         (rabbitChannel (snd (sendToQueue_producer env q m st)) = None \<and>
          rabbitConnection (snd (sendToQueue_producer env q m st)) = None)"
proof -
  obtain r st' where s: "send_on_channel env q m st = (r, st')" by (cases "send_on_channel env q m st")
  with send_on_channel_refs [of env q m st]
  have "rabbitChannel st' = rabbitChannel st" "rabbitConnection st' = rabbitConnection st" by simp_all
  with assms s show ?thesis
    by (cases r) (auto simp: sendToQueue_producer_def send_try_producer_def state_defs)
qed

lemma resume_send_refs:
  "(rabbitChannel (snd (resume_sendToQueue env q m st)) = rabbitChannel st \<and>
          rabbitConnection (snd (resume_sendToQueue env q m st)) = rabbitConnection st) \<or>
         (rabbitChannel (snd (resume_sendToQueue env q m st)) = None \<and>
          rabbitConnection (snd (resume_sendToQueue env q m st)) = None)"
proof -
  obtain r st' where s: "send_on_channel env q m st = (r, st')" by (cases "send_on_channel env q m st")
  with send_on_channel_refs [of env q m st]
  have "rabbitChannel st' = rabbitChannel st" "rabbitConnection st' = rabbitConnection st" by simp_all
  with s show ?thesis
    by (cases r) (auto simp: resume_sendToQueue_def state_defs)
qed

lemma at_assert_removed:
  assumes "at_assert cfg" and "i < length (calls cfg)" and "calls cfg ! i = Resuming q m"
  shows "at_assert (cfg\<lparr>vars := st, calls := take i (calls cfg) @ drop (Suc i) (calls cfg)\<rparr>)"
proof -
  from assms(1) obtain caller where c: "Connecting AtAssert caller \<in> set (calls cfg)"
    by (auto simp: at_assert_def)
  then obtain j where j: "j < length (calls cfg)" "calls cfg ! j = Connecting AtAssert caller"
    by (auto simp: in_set_conv_nth)
  with assms(3) have "j \<noteq> i" by auto
  have "calls cfg = take i (calls cfg) @ calls cfg ! i # drop (Suc i) (calls cfg)"
    using assms(2) by (simp add: id_take_nth_drop)
  then have "set (calls cfg) = set (take i (calls cfg) @ drop (Suc i) (calls cfg)) \<union> {Resuming q m}"
    using assms(3) by (metis Un_insert_right append_Nil2 list.simps(15) set_append sup_bot.right_neutral Un_commute insert_is_Un)
  with c have "Connecting AtAssert caller \<in> set (take i (calls cfg) @ drop (Suc i) (calls cfg))"
    by auto
  then show ?thesis by (auto simp: at_assert_def)
qed

lemma step_inv:
  assumes "step ev cfg = Some cfg'" and "split_only_at_assert cfg"
  shows "split_only_at_assert cfg'"
proof (cases ev)
  case TimerFires
  with assms show ?thesis
    by (auto simp: split_only_at_assert_def at_assert_def connect_start_def split: if_splits)
next
  case (ConnectSettles i r)
  with assms(1) resume_connect_inv [of r "vars cfg"] show ?thesis
    by (auto simp: split_only_at_assert_def split: if_splits call.splits stage.splits)
next
  case (ChannelSettles i r)
  with assms(1) resume_channel_inv [of r "vars cfg"] show ?thesis
    by (auto simp: split_only_at_assert_def at_assert_def continue_def split: if_splits call.splits stage.splits)
next
  case (AssertSettles i r)
  with assms(1) resume_assert_inv [of r "vars cfg"] show ?thesis
    by (auto simp: split_only_at_assert_def split: if_splits call.splits stage.splits)
next
  case (Emits c sg)
  with assms fold_on_signal_refs [of "filter (\<lambda>l. l = (c, sg)) (listeners (vars cfg))" "vars cfg"]
  show ?thesis
    by (auto simp: split_only_at_assert_def at_assert_def emit_producer_def)
next
  case (SendCalled env q m)
  show ?thesis
  proof (cases "rabbitChannel (vars cfg) = None")
    case True
    with assms SendCalled show ?thesis
      by (auto simp: split_only_at_assert_def at_assert_def connect_start_def)
  next
    case False
    with assms SendCalled send_live_refs [OF False, of env q m] show ?thesis
      by (auto simp: split_only_at_assert_def at_assert_def)
  qed
next
  case (SendResumes i env)
  with assms(1) obtain q m where i: "i < length (calls cfg)" "calls cfg ! i = Resuming q m"
    and c: "cfg' = cfg\<lparr>vars := snd (resume_sendToQueue env q m (vars cfg)),
                       calls := take i (calls cfg) @ drop (Suc i) (calls cfg)\<rparr>"
    by (auto split: if_splits call.splits)
  show ?thesis
  proof (cases "rabbitChannel (vars cfg') \<noteq> None \<and> rabbitConnection (vars cfg') = None")
    case False
    then show ?thesis by (auto simp: split_only_at_assert_def)
  next
    case True
    with c resume_send_refs [of env q m "vars cfg"]
    have "rabbitChannel (vars cfg) \<noteq> None \<and> rabbitConnection (vars cfg) = None" by auto
    with assms(2) have "at_assert cfg" by (simp add: split_only_at_assert_def)
    from at_assert_removed [OF this i] c show ?thesis by (simp add: split_only_at_assert_def)
  qed
qed

lemma reachable_inv: "reachable_producer cfg \<Longrightarrow> split_only_at_assert cfg"
proof (induction rule: reachable_producer.induct)
  case start
  show ?case by (simp add: split_only_at_assert_def producer_start_def connect_start_def initial_def)
next
  case (step cfg ev cfg')
  then show ?case using step_inv by blast
qed

subsection \<open>Overlapping calls\<close>

text \<open>
  Claim C10, as stated: in every state the producer reaches, the channel reference would
  be non-null only if the connection reference is non-null. After an \<open>error\<close> and a \<open>close\<close>
  signal two calls of \<open>connectToRabbitMQ\<close> overlap; when the second is refused (its
  \<open>catch\<close> sets both references to \<open>null\<close>) between the two assignments of the first, the
  first resumes at line 28 and assigns the channel alone.
\<close>

theorem overlapping_connects_split_references:
  "run race producer_start = Some race_end \<and> reachable_producer race_end \<and>
   rabbitChannel (vars race_end) = Some 1 \<and> rabbitConnection (vars race_end) = None"
proof -
  have r: "run race producer_start = Some race_end"
    by (simp add: race_def race_end_def loop_defs)
  from run_reachable [OF reachable_producer.start r] r show ?thesis
    by (simp add: race_end_def)
qed

text \<open>
  Claim C10, amended: a call of \<open>connectToRabbitMQ\<close> that runs alone leaves both
  references \<open>null\<close> or both non-null; its \<open>catch\<close>, the listeners and the \<open>catch\<close> of
  \<open>sendToQueue\<close> set both to \<open>null\<close>. In every configuration the producer reaches, with
  calls suspended at their \<open>await\<close>s and resumed in any order, the channel reference is
  non-null while the connection reference is \<open>null\<close> only while some call of
  \<open>connectToRabbitMQ\<close> is suspended at its \<open>await\<close> of \<open>assertQueue\<close> (line 31); so whenever no
  call is suspended, the channel reference is non-null only if the connection reference
  is.
\<close>

theorem producer_references:
  assumes "reachable_producer cfg"
  shows "(rabbitChannel (vars cfg) \<noteq> None \<and> rabbitConnection (vars cfg) = None \<longrightarrow>
            (\<exists>caller. Connecting AtAssert caller \<in> set (calls cfg))) \<and>
         (calls cfg = [] \<longrightarrow> rabbitChannel (vars cfg) \<noteq> None \<longrightarrow>
            rabbitConnection (vars cfg) \<noteq> None) \<and>
         ((rabbitConnection (connectToRabbitMQ_producer env st) = None) =
          (rabbitChannel (connectToRabbitMQ_producer env st) = None)) \<and>
         rabbitConnection (catch_connect st) = None \<and> rabbitChannel (catch_connect st) = None \<and>
         rabbitConnection (on_signal_producer st) = None \<and>
         rabbitChannel (on_signal_producer st) = None \<and>
         (fst (send_try_producer env q m st) = Throws e \<longrightarrow>
            rabbitConnection (snd (sendToQueue_producer env q m st)) = None \<and>
            rabbitChannel (snd (sendToQueue_producer env q m st)) = None)"
proof -
  from reachable_inv [OF assms]
  have 1: "rabbitChannel (vars cfg) \<noteq> None \<and> rabbitConnection (vars cfg) = None \<longrightarrow>
            (\<exists>caller. Connecting AtAssert caller \<in> set (calls cfg))"
    by (simp add: split_only_at_assert_def at_assert_def)
  then have 2: "calls cfg = [] \<longrightarrow> rabbitChannel (vars cfg) \<noteq> None \<longrightarrow>
            rabbitConnection (vars cfg) \<noteq> None"
    by auto
  have 3: "rabbitConnection (on_signal_producer st) = None \<and>
         rabbitChannel (on_signal_producer st) = None"
    by (simp add: on_signal_producer_def state_defs)
  from 1 2 3 connectToRabbitMQ_producer_together [of env st] catch_connect_refs [of st]
    sendToQueue_producer_catch [of env q m st e]
  show ?thesis by blast
qed

theorem producer_references_witness:
  "run first_connect producer_start = Some producer_connected \<and>
   reachable_producer producer_connected \<and> calls producer_connected = [] \<and>
   rabbitChannel (vars producer_connected) = Some 0 \<and>
   rabbitConnection (vars producer_connected) \<noteq> None \<and>
   reachable_producer race_end \<and> rabbitChannel (vars race_end) = Some 1 \<and>
   rabbitConnection (vars race_end) = None \<and>
   Connecting AtAssert None \<in> set (calls race_end) \<and>
   fst (send_try_producer env_closed ''game_events'' JNull connected) =
     Throws (JsError ''Channel closed'') \<and>
   rabbitConnection (snd (sendToQueue_producer env_closed ''game_events'' JNull connected)) = None \<and>
   rabbitChannel (snd (sendToQueue_producer env_closed ''game_events'' JNull connected)) = None"
proof -
  have r: "run first_connect producer_start = Some producer_connected"
    by (simp add: first_connect_def producer_connected_def loop_defs)
  from run_reachable [OF reachable_producer.start r]
  have reach: "reachable_producer producer_connected" .
  have c: "calls producer_connected = []" "rabbitChannel (vars producer_connected) = Some 0"
    by (simp_all add: producer_connected_def)
  have t: "fst (send_try_producer env_closed ''game_events'' JNull connected) =
     Throws (JsError ''Channel closed'')"
    by (simp add: send_try_producer_def send_on_channel_def connected_def initial_def
        env_closed_def env_up_def Let_def)
  from producer_references [OF reach, of env_closed connected "''game_events''" JNull
      "JsError ''Channel closed''"] c t
  have 1: "rabbitConnection (vars producer_connected) \<noteq> None \<and>
    rabbitConnection (snd (sendToQueue_producer env_closed ''game_events'' JNull connected)) = None \<and>
    rabbitChannel (snd (sendToQueue_producer env_closed ''game_events'' JNull connected)) = None"
    by simp
  have r2: "run race producer_start = Some race_end"
    by (simp add: race_def race_end_def loop_defs)
  from run_reachable [OF reachable_producer.start r2]
  have reach2: "reachable_producer race_end" .
  have s: "rabbitChannel (vars race_end) = Some 1" "rabbitConnection (vars race_end) = None"
    "calls race_end = [Connecting AtAssert None]"
    by (simp_all add: race_end_def)
  from producer_references [OF reach2] s
  have 2: "Connecting AtAssert None \<in> set (calls race_end)" by simp
  from r reach c t 1 reach2 s(1,2) 2 show ?thesis by blast
qed

section \<open>Properties of the consumer\<close>

lemma consume_all:
  assumes "\<forall>k p. handler k p = None"
  shows "consume deserialize handler (length q) k q =
           (map (\<lambda>e. (e, if deserialize (payload e) = None then Nack False else Ack)) q, [])"
  using assms
proof (induction q arbitrary: k)
  case Nil
  show ?case by simp
next
  case (Cons e q)
  have d: "dispatch deserialize handler k e =
      (if deserialize (payload e) = None then Nack False else Ack)"
    using Cons.prems by (simp add: dispatch_def split: option.splits)
  then have "settle (dispatch deserialize handler k e) e q = q" by simp
  with Cons.IH [OF Cons.prems, of "Suc k"] d show ?case
    by (simp add: Let_def)
qed

text \<open>
  Claim C6: the consumer acknowledges an envelope whose handler completes without
  error (it leaves the queue); it negative-acknowledges with requeue when the handler
  raises a domain error (the envelope is back in the queue, marked redelivered); it
  negative-acknowledges without requeue when the payload cannot be deserialized (or the
  handler reports it malformed): the envelope is dropped and the consumer goes on with the rest of the queue unchanged. So
  with a handler that never fails, every envelope of a queue is delivered once, in order,
  the valid ones acknowledged and the unparseable ones dropped.
\<close>

theorem consumer_acknowledgement:
  "(deserialize (payload e) = Some p \<and> handler k p = None \<longrightarrow>
      dispatch deserialize handler k e = Ack \<and>
      settle (dispatch deserialize handler k e) e q = q) \<and>
   (deserialize (payload e) = Some p \<and> handler k p = Some HandlerError \<longrightarrow>
      dispatch deserialize handler k e = Nack True \<and>
      settle (dispatch deserialize handler k e) e q = q @ [e\<lparr>redelivered := True\<rparr>]) \<and>
   (deserialize (payload e) = Some p \<and> handler k p = Some MalformedMessageError \<longrightarrow>
      dispatch deserialize handler k e = Nack False \<and>
      settle (dispatch deserialize handler k e) e q = q) \<and>
   (deserialize (payload e) = None \<longrightarrow>
      dispatch deserialize handler k e = Nack False \<and>
      settle (dispatch deserialize handler k e) e q = q \<and>
      consume deserialize handler (Suc n) k (e # q) =
        ((e, Nack False) # fst (consume deserialize handler n (Suc k) q),
         snd (consume deserialize handler n (Suc k) q))) \<and>
   ((\<forall>k p. handler k p = None) \<longrightarrow>
      consume deserialize handler (length q) k q =
        (map (\<lambda>e. (e, if deserialize (payload e) = None then Nack False else Ack)) q, []))"
  using consume_all [of handler deserialize q k]
  by (simp add: dispatch_def Let_def)

theorem consumer_acknowledgement_witness:
  "parse0 (payload poison) = None \<and> parse0 (payload valid) = Some [123, 125] \<and>
   flaky 0 [123, 125] = Some HandlerError \<and> flaky 1 [123, 125] = None \<and>
   dispatch parse0 flaky 0 valid = Nack True \<and>
   dispatch parse0 flaky 1 valid = Ack \<and>
   dispatch parse0 flaky 0 poison = Nack False \<and>
   consume parse0 (\<lambda>k p. None) (length [poison, valid]) 0 [poison, valid] =
     ([(poison, Nack False), (valid, Ack)], [])"
proof -
  have h: "parse0 (payload poison) = None" "parse0 (payload valid) = Some [123, 125]"
    "flaky 0 [123, 125] = Some HandlerError" "flaky 1 [123, 125] = None"
    by (simp_all add: parse0_def poison_def valid_def flaky_def)
  from consumer_acknowledgement [of parse0 valid "[123, 125]" flaky 0 "[]" 0] h
  have 1: "dispatch parse0 flaky 0 valid = Nack True" by simp
  from consumer_acknowledgement [of parse0 valid "[123, 125]" flaky 1 "[]" 0] h
  have 2: "dispatch parse0 flaky 1 valid = Ack" by simp
  from consumer_acknowledgement [of parse0 poison "[123, 125]" flaky 0 "[]" 0] h
  have 3: "dispatch parse0 flaky 0 poison = Nack False" by simp
  have m: "map (\<lambda>e. (e, if parse0 (payload e) = None then Nack False else Ack)) [poison, valid]
      = [(poison, Nack False), (valid, Ack)]"
    using h by simp
  from consumer_acknowledgement [of parse0 poison "[123, 125]" "\<lambda>k p. None" 0 "[poison, valid]" 0]
  have "consume parse0 (\<lambda>k p. None) (length [poison, valid]) 0 [poison, valid] =
     (map (\<lambda>e. (e, if parse0 (payload e) = None then Nack False else Ack)) [poison, valid], [])"
    by blast
  then have 4: "consume parse0 (\<lambda>k p. None) (length [poison, valid]) 0 [poison, valid] =
     ([(poison, Nack False), (valid, Ack)], [])"
    by (simp only: m)
  from h 1 2 3 4 show ?thesis by blast
qed

end
